theory Spec2Isabelle
  imports Main "HOL-Library.AList"
begin

section \<open>Python values\<close>

text \<open>
  The module \<^verbatim>\<open>flask_mongoengine/connection.py\<close> works on dynamically typed values:
  configuration mappings, their entries, and the three context flags. They are embedded
  as one datatype. A \<^verbatim>\<open>dict\<close> is an association list in insertion order: storing under an
  existing key keeps the key's position, storing under a new key appends, as Python
  dictionaries do. Configuration mappings are keyed by strings; strings are byte strings
  and lower-casing is the ASCII one.
\<close>

datatype read_preference =
  PRIMARY | PRIMARY_PREFERRED | SECONDARY | SECONDARY_PREFERRED | NEAREST

datatype pyval =
    PNone
  | PBool bool
  | PInt int
  | PStr string
  | PReadPreference read_preference
  | PList "pyval list"
  | PDict "(string \<times> pyval) list"

type_synonym dict = "(string \<times> pyval) list"

text \<open>Truth value testing (\<^verbatim>\<open>if x:\<close>, \<^verbatim>\<open>not x\<close>, \<^verbatim>\<open>x or y\<close>).\<close>

fun truthy :: "pyval \<Rightarrow> bool" where
  "truthy PNone = False"
| "truthy (PBool b) = b"
| "truthy (PInt i) = (i \<noteq> 0)"
| "truthy (PStr s) = (s \<noteq> [])"
| "truthy (PReadPreference r) = True"
| "truthy (PList xs) = (xs \<noteq> [])"
| "truthy (PDict d) = (d \<noteq> [])"

fun isinstance_dict :: "pyval \<Rightarrow> bool" where
  "isinstance_dict (PDict d) = True"
| "isinstance_dict v = False"

fun isinstance_bool :: "pyval \<Rightarrow> bool" where
  "isinstance_bool (PBool b) = True"
| "isinstance_bool v = False"

text \<open>\<^verbatim>\<open>k in d\<close>, \<^verbatim>\<open>d.get(k, default)\<close>, \<^verbatim>\<open>d[k] = v\<close> and \<^verbatim>\<open>d.pop(k, None)\<close>.\<close>

definition dict_in :: "'k \<Rightarrow> ('k \<times> 'v) list \<Rightarrow> bool" where
  "dict_in k d = (map_of d k \<noteq> None)"

definition dict_get :: "('k \<times> 'v) list \<Rightarrow> 'k \<Rightarrow> 'v \<Rightarrow> 'v" where
  "dict_get d k dflt = (case map_of d k of Some v \<Rightarrow> v | None \<Rightarrow> dflt)"

definition dict_set :: "'k \<Rightarrow> 'v \<Rightarrow> ('k \<times> 'v) list \<Rightarrow> ('k \<times> 'v) list" where
  "dict_set k v d = AList.update k v d"

definition dict_pop :: "'k \<Rightarrow> ('k \<times> 'v) list \<Rightarrow> ('k \<times> 'v) list" where
  "dict_pop k d = AList.delete k d"

text \<open>\<^verbatim>\<open>str.lower\<close> and \<^verbatim>\<open>str.startswith\<close> on ASCII strings.\<close>

definition lower_char :: "char \<Rightarrow> char" where
  "lower_char c =
     (let n = (of_char c :: nat) in if 65 \<le> n \<and> n \<le> 90 then char_of (n + 32) else c)"

definition lower :: "string \<Rightarrow> string" where
  "lower s = map lower_char s"

definition startswith :: "string \<Rightarrow> string \<Rightarrow> bool" where
  "startswith s p = (take (length p) s = p)"

section \<open>Settings resolution\<close>

definition DEFAULT_CONNECTION_NAME :: string where
  "DEFAULT_CONNECTION_NAME = ''default-mongodb-connection''"

text \<open>
  The loop of \<^verbatim>\<open>_resolve_settings\<close> over \<^verbatim>\<open>settings.items()\<close>. The prefix is
  \<^verbatim>\<open>None\<close> or a string; \<^verbatim>\<open>if settings_prefix:\<close> is false for \<^verbatim>\<open>None\<close> and for the
  empty string.
\<close>

definition prefix_given :: "string option \<Rightarrow> bool" where
  "prefix_given settings_prefix =
     (case settings_prefix of None \<Rightarrow> False | Some p \<Rightarrow> p \<noteq> [])"

definition resolve_item :: "string option \<Rightarrow> string \<times> pyval \<Rightarrow> dict \<Rightarrow> dict" where
  "resolve_item settings_prefix kv resolved_settings =
     (if prefix_given settings_prefix
      then (if startswith (fst kv) (the settings_prefix)
            then dict_set (lower (drop (length (the settings_prefix)) (fst kv))) (snd kv)
                   resolved_settings
            else resolved_settings)
      else dict_set (lower (fst kv)) (snd kv) resolved_settings)"

definition resolve_items :: "string option \<Rightarrow> dict \<Rightarrow> dict" where
  "resolve_items settings_prefix items = fold (resolve_item settings_prefix) items []"

text \<open>\<^verbatim>\<open>d[k] = d.get(k, default)\<close>, the form of the default-injecting lines.\<close>

definition set_default :: "string \<Rightarrow> pyval \<Rightarrow> dict \<Rightarrow> dict" where
  "set_default k dflt d = dict_set k (dict_get d k dflt) d"

definition resolve_name :: "dict \<Rightarrow> dict" where
  "resolve_name d =
     (if dict_in ''db'' d
      then dict_set ''name'' (dict_get d ''db'' PNone) (dict_pop ''db'' d)
      else dict_set ''name'' (PStr ''test'') d)"

definition resolve_defaults :: "dict \<Rightarrow> dict" where
  "resolve_defaults d =
     set_default ''read_preference'' (PReadPreference PRIMARY)
       (set_default ''username'' PNone
         (set_default ''port'' (PInt 27017)
           (set_default ''host'' (PStr ''localhost'')
             (set_default ''alias'' (PStr DEFAULT_CONNECTION_NAME) d))))"

definition resolve_replicaset :: "dict \<Rightarrow> dict" where
  "resolve_replicaset d =
     (if dict_in ''replicaset'' d
      then dict_set ''replicaSet'' (dict_get d ''replicaset'' PNone) (dict_pop ''replicaset'' d)
      else d)"

definition resolve_password :: "bool \<Rightarrow> dict \<Rightarrow> dict" where
  "resolve_password remove_pass d = (if remove_pass then dict_pop ''password'' d else d)"

definition resolve_settings :: "pyval \<Rightarrow> string option \<Rightarrow> bool \<Rightarrow> pyval" where
  "resolve_settings settings settings_prefix remove_pass =
     (if \<not> truthy settings \<or> \<not> isinstance_dict settings then settings
      else (case settings of
              PDict items \<Rightarrow>
                PDict (resolve_password remove_pass
                        (resolve_replicaset
                          (resolve_defaults
                            (resolve_name (resolve_items settings_prefix items)))))
            | _ \<Rightarrow> settings))"

text \<open>
  \<^verbatim>\<open>fetch_connection_settings\<close>: a \<^verbatim>\<open>MONGODB_SETTINGS\<close> entry holding a list is resolved
  element by element, any other entry is resolved as it is, and a configuration without
  the entry is resolved with the prefix \<^verbatim>\<open>MONGODB_\<close>.
\<close>

definition fetch_connection_settings :: "dict \<Rightarrow> bool \<Rightarrow> pyval" where
  "fetch_connection_settings config remove_pass =
     (if dict_in ''MONGODB_SETTINGS'' config
      then (case dict_get config ''MONGODB_SETTINGS'' PNone of
              PList settings \<Rightarrow>
                PList (map (\<lambda>setting. resolve_settings setting None remove_pass) settings)
            | settings \<Rightarrow> resolve_settings settings None remove_pass)
      else resolve_settings (PDict config) (Some ''MONGODB_'') remove_pass)"

section \<open>The connection registry and the world around it\<close>

text \<open>
  The module keeps its registry in globals: \<^verbatim>\<open>_connection_settings\<close> (alias to descriptor),
  \<^verbatim>\<open>_connections\<close> (alias to client), \<^verbatim>\<open>_tmpdir\<close>, \<^verbatim>\<open>_process\<close> and
  \<^verbatim>\<open>_app_instance\<close>. They are the fields of \<open>state\<close>, passed in and returned; a raise
  keeps the mutations made before it. Aliases are dictionary keys, so any hashable value;
  keys are compared structurally.

  Everything the module calls but does not define (mongoengine, pymongo, mongomock,
  subprocess, the file system, Flask's \<^verbatim>\<open>current_app\<close>) is a field of \<open>env\<close>. Each
  external call may answer differently every time: it reads the list of the external
  calls made so far, and the call is appended to that list (\<open>trace\<close>) whether it returns
  or raises. The external library is taken as the opaque capability of the specification:
  its calls do not reach into the registry. Console output is not modelled, and
  \<^verbatim>\<open>set_global_attributes\<close>, which hands the registry to mongoengine, has no effect on the
  state.
\<close>

datatype client = Client nat

datatype database = Database nat "client option"
  \<comment> \<open>what \<^verbatim>\<open>mongoengine.connection.get_db\<close> returns, with its \<^verbatim>\<open>client\<close> attribute
      (\<open>None\<close> when the attribute is falsy)\<close>

datatype proc = Process nat

datatype exc =
    ConnectionFailure string
  | UnboundLocalError string
  | OtherError string string
  \<comment> \<open>exceptions below \<^verbatim>\<open>Exception\<close>: \<^verbatim>\<open>pymongo.errors.ConnectionFailure\<close> and its
      subclasses, the interpreter's error for an unassigned local, any other class with
      its name and message\<close>

datatype error =
    InvalidSettingsError string
  | ConnectionError string
  | InvalidURI string
  | RuntimeError string
  | MongoengineConnectionError string
  | KeyError string
  | AttributeError string
  | TypeError string
  | Raised exc
  \<comment> \<open>\<open>ConnectionError\<close> is the module's own class, \<open>MongoengineConnectionError\<close> is
      \<^verbatim>\<open>mongoengine.ConnectionError\<close>, \<open>Raised\<close> is an exception of an external call that
      reaches the caller as it was raised\<close>

datatype event =
    Ev_connect pyval dict
  | Ev_mock_client dict
  | Ev_get_db pyval
  | Ev_close_client client
  | Ev_close_database database
  | Ev_terminate proc
  | Ev_wait proc
  | Ev_rmtree pyval
  | Ev_remove string
  | Ev_exec string
  | Ev_mkdtemp
  | Ev_popen pyval pyval
  | Ev_atexit_register pyval
  | Ev_sleep nat
  | Ev_mongo_client pyval

datatype app_inst = Current_app | App_object dict | App_value pyval
  \<comment> \<open>\<^verbatim>\<open>_app_instance\<close>: Flask's \<^verbatim>\<open>current_app\<close> proxy at import time, then an
      application object (with its \<^verbatim>\<open>config\<close>) or the configuration value itself\<close>

datatype connection_class = Unbound | Class_None | Mongomock_MongoClient
  \<comment> \<open>the local variable \<^verbatim>\<open>connection_class\<close> of \<^verbatim>\<open>get_connection\<close>; it is assigned
      only in the \<^verbatim>\<open>if is_test:\<close> branch\<close>

datatype ret = Ret_database database | Ret_client client | Ret_none

datatype created = Created_one ret | Created_many "(pyval \<times> ret) list"

record state =
  connection_settings :: "(pyval \<times> dict) list"
  connections :: "(pyval \<times> client) list"
  tmpdir :: pyval
  process :: "proc option"
  app_instance :: app_inst
  trace :: "event list"

record env =
  mongoengine_connect :: "event list \<Rightarrow> pyval \<Rightarrow> dict \<Rightarrow> exc + client"
  mongoengine_get_db :: "event list \<Rightarrow> pyval \<Rightarrow> exc + database"
  mongoengine_VERSION :: "nat list"
  mongomock_importable :: bool
  mongomock_MongoClient :: "event list \<Rightarrow> dict \<Rightarrow> exc + client"
  pymongo_MongoClient :: "event list \<Rightarrow> pyval \<Rightarrow> exc + client"
  subprocess_shell :: "event list \<Rightarrow> string \<Rightarrow> exc + (int \<times> string \<times> string)"
  subprocess_Popen :: "event list \<Rightarrow> pyval \<Rightarrow> pyval \<Rightarrow> exc + proc"
  current_app_config :: "event list \<Rightarrow> exc + dict"
  tempfile_mkdtemp :: "event list \<Rightarrow> exc + string"
  tempfile_gettempdir :: string
  os_path_exists :: "event list \<Rightarrow> pyval \<Rightarrow> exc + bool"
  os_remove :: "event list \<Rightarrow> string \<Rightarrow> exc option"
  str_of :: "pyval \<Rightarrow> string"
  str_of_exc :: "exc \<Rightarrow> string"

definition initial_state :: state where
  "initial_state =
     \<lparr>connection_settings = [], connections = [], tmpdir = PNone, process = None,
      app_instance = Current_app, trace = []\<rparr>"

definition log :: "event \<Rightarrow> state \<Rightarrow> state" where
  "log ev st = st\<lparr>trace := trace st @ [ev]\<rparr>"

definition bind ::
  "(state \<Rightarrow> (error + 'a) \<times> state) \<Rightarrow> ('a \<Rightarrow> state \<Rightarrow> (error + 'b) \<times> state) \<Rightarrow>
   state \<Rightarrow> (error + 'b) \<times> state" where
  "bind m f st = (case m st of (Inl e, st') \<Rightarrow> (Inl e, st') | (Inr a, st') \<Rightarrow> f a st')"

text \<open>Dictionary keys must be hashable; lists and dictionaries are not.\<close>

fun hashable :: "pyval \<Rightarrow> bool" where
  "hashable (PList xs) = False"
| "hashable (PDict d) = False"
| "hashable v = True"

text \<open>\<^verbatim>\<open>"%s" % v\<close>: a string is inserted as it is, any other value through \<^verbatim>\<open>str\<close>.\<close>

definition py_str :: "env \<Rightarrow> pyval \<Rightarrow> string" where
  "py_str env v = (case v of PStr s \<Rightarrow> s | _ \<Rightarrow> str_of env v)"

text \<open>\<^verbatim>\<open>v.startswith(p)\<close> on a value that need not be a string.\<close>

definition py_startswith :: "pyval \<Rightarrow> string \<Rightarrow> error + bool" where
  "py_startswith v p =
     (case v of PStr s \<Rightarrow> Inr (startswith s p) | _ \<Rightarrow> Inl (AttributeError ''startswith''))"

text \<open>Comparison of version tuples, as Python orders tuples.\<close>

fun tuple_less :: "nat list \<Rightarrow> nat list \<Rightarrow> bool" where
  "tuple_less [] [] = False"
| "tuple_less [] (y # ys) = True"
| "tuple_less (x # xs) [] = False"
| "tuple_less (x # xs) (y # ys) = (x < y \<or> (x = y \<and> tuple_less xs ys))"

section \<open>Validation of the context flags\<close>

definition flags_not_boolean_msg :: string where
  "flags_not_boolean_msg =
     ''`TESTING`, `TEMP_DB`, and `PRESERVE_TEMP_DB`'' @ '' must be boolean values''"

definition mock_outside_test_msg :: string where
  "mock_outside_test_msg =
     ''`MongoMock` connection is only required for `unittest`.'' @
     ''To enable this set `TESTING` to true`.''"

definition test_only_msg :: string where
  "test_only_msg =
     ''`TESTING` and/or `TEMP_DB` can be used '' @ ''only when `TESTING` is set to true.''"

text \<open>
  \<^verbatim>\<open>_validate_settings\<close>. The third condition is \<^verbatim>\<open>not is_test and temp_db or preserved\<close>,
  which Python reads as \<^verbatim>\<open>((not is_test) and temp_db) or preserved\<close>.
\<close>

definition validate_settings :: "pyval \<Rightarrow> pyval \<Rightarrow> pyval \<Rightarrow> pyval \<Rightarrow> error + unit" where
  "validate_settings is_test temp_db preserved conn_host =
     (if \<not> isinstance_bool is_test \<or> \<not> isinstance_bool temp_db \<or> \<not> isinstance_bool preserved
      then Inl (InvalidSettingsError flags_not_boolean_msg)
      else (case (if \<not> truthy is_test then py_startswith conn_host ''mongomock://''
                  else Inr False) of
              Inl e \<Rightarrow> Inl e
            | Inr True \<Rightarrow> Inl (InvalidURI mock_outside_test_msg)
            | Inr False \<Rightarrow>
                if (\<not> truthy is_test \<and> truthy temp_db) \<or> truthy preserved
                then Inl (InvalidSettingsError test_only_msg)
                else Inr ()))"

text \<open>\<^verbatim>\<open>__get_app_config\<close>.\<close>

definition get_app_config :: "env \<Rightarrow> string \<Rightarrow> state \<Rightarrow> (error + pyval) \<times> state" where
  "get_app_config env key st =
     (case app_instance st of
        App_value v \<Rightarrow>
          (case v of
             PDict d \<Rightarrow> (Inr (dict_get d key (PBool False)), st)
           | _ \<Rightarrow> (Inl (AttributeError ''config''), st))
      | App_object cfg \<Rightarrow> (Inr (dict_get cfg key (PBool False)), st)
      | Current_app \<Rightarrow>
          (case current_app_config env (trace st) of
             Inl e \<Rightarrow> (Inl (Raised e), st)
           | Inr cfg \<Rightarrow> (Inr (dict_get cfg key (PBool False)), st)))"

section \<open>The ephemeral test instance\<close>

text \<open>\<^verbatim>\<open>_sys_exec\<close>: run a shell command, raise on a non-zero return code.\<close>

definition sys_exec :: "env \<Rightarrow> string \<Rightarrow> state \<Rightarrow> (exc + string) \<times> state" where
  "sys_exec env cmd st =
     (case subprocess_shell env (trace st) cmd of
        Inl e \<Rightarrow> (Inl e, log (Ev_exec cmd) st)
      | Inr (returncode, out, err) \<Rightarrow>
          if returncode \<noteq> 0 then (Inl (OtherError ''Exception'' err), log (Ev_exec cmd) st)
          else (Inr out, log (Ev_exec cmd) st))"

text \<open>
  The readiness loop \<^verbatim>\<open>for i in range(3)\<close>: sleep 0.1 s (100 ms), try to open a client,
  go on after a \<^verbatim>\<open>ConnectionFailure\<close>; the \<^verbatim>\<open>else\<close> of the loop raises
  \<^verbatim>\<open>mongoengine.ConnectionError\<close>. The third argument counts the attempts left.
\<close>

definition test_instance_msg :: string where
  "test_instance_msg = ''Cannot connect to the mongodb test instance''"

fun wait_for_instance :: "env \<Rightarrow> pyval \<Rightarrow> nat \<Rightarrow> state \<Rightarrow> (error + client) \<times> state" where
  "wait_for_instance env port 0 st =
     (Inl (MongoengineConnectionError test_instance_msg), st)"
| "wait_for_instance env port (Suc n) st =
     (case pymongo_MongoClient env (trace (log (Ev_sleep 100) st)) port of
        Inr c \<Rightarrow> (Inr c, log (Ev_mongo_client port) (log (Ev_sleep 100) st))
      | Inl e \<Rightarrow>
          (case e of
             ConnectionFailure m \<Rightarrow>
               wait_for_instance env port n
                 (log (Ev_mongo_client port) (log (Ev_sleep 100) st))
           | _ \<Rightarrow> (Inl (Raised e), log (Ev_mongo_client port) (log (Ev_sleep 100) st))))"

text \<open>
  \<^verbatim>\<open>_register_test_connection\<close> up to the spawn: probe for \<^verbatim>\<open>mongod\<close>, choose the port,
  set \<^verbatim>\<open>_tmpdir\<close>. The result is \<open>None\<close> when the probe printed nothing (the function then
  returns \<^verbatim>\<open>None\<close>), and the chosen port otherwise.
\<close>

definition mongod_missing_msg :: string where
  "mongod_missing_msg =
     ''You need `MongoDB` service installed on localhost'' @ '' to create a TEMP_DB instance.''"

definition choose_port :: "pyval \<Rightarrow> pyval" where
  "choose_port port = (if \<not> truthy port \<or> port = PInt 27017 then PInt 27111 else port)"

definition prepare_test_instance ::
  "env \<Rightarrow> pyval \<Rightarrow> state \<Rightarrow> (error + pyval option) \<times> state" where
  "prepare_test_instance env port st =
     (case sys_exec env ''mongod --version'' st of
        (Inl e, st1) \<Rightarrow>
          (Inl (RuntimeError mongod_missing_msg), st1)
      | (Inr found, st1) \<Rightarrow>
          if found = [] then (Inr None, st1)
          else (case current_app_config env (trace st1) of
                  Inl e \<Rightarrow> (Inl (Raised e), st1)
                | Inr cfg \<Rightarrow>
                    (case tempfile_mkdtemp env (trace st1) of
                       Inl e \<Rightarrow> (Inl (Raised e), log Ev_mkdtemp st1)
                     | Inr dir \<Rightarrow>
                         (Inr (Some (choose_port port)),
                          (log Ev_mkdtemp st1)
                            \<lparr>tmpdir := dict_get cfg ''TEMP_DB_LOC'' (PStr dir)\<rparr>))))"

definition register_test_connection ::
  "env \<Rightarrow> pyval \<Rightarrow> pyval \<Rightarrow> pyval \<Rightarrow> state \<Rightarrow> (error + ret) \<times> state" where
  "register_test_connection env port db_alias preserved st =
     (case prepare_test_instance env port st of
        (Inl e, st1) \<Rightarrow> (Inl e, st1)
      | (Inr None, st1) \<Rightarrow> (Inr Ret_none, st1)
      | (Inr (Some port'), st1) \<Rightarrow>
          if \<not> hashable db_alias then (Inl (TypeError ''unhashable type''), st1)
          else (case map_of (connections st1) db_alias of
                  Some conn \<Rightarrow> (Inr (Ret_client conn), st1)
                | None \<Rightarrow>
                    (case subprocess_Popen env (trace st1) port' (tmpdir st1) of
                       Inl e \<Rightarrow> (Inl (Raised e), log (Ev_popen port' (tmpdir st1)) st1)
                     | Inr p \<Rightarrow>
                         (case wait_for_instance env port' 3
                                 (log (Ev_atexit_register preserved)
                                    ((log (Ev_popen port' (tmpdir st1)) st1)
                                       \<lparr>process := Some p\<rparr>)) of
                            (Inl e, st2) \<Rightarrow> (Inl e, st2)
                          | (Inr conn, st2) \<Rightarrow>
                              (Inr (Ret_client conn),
                               st2\<lparr>connections := dict_set db_alias conn (connections st2)\<rparr>)))))"

section \<open>Getting a connection\<close>

definition connection_get_db :: "env \<Rightarrow> pyval \<Rightarrow> state \<Rightarrow> (error + ret) \<times> state" where
  "connection_get_db env alias st =
     (case mongoengine_get_db env (trace st) alias of
        Inl e \<Rightarrow> (Inl (Raised e), log (Ev_get_db alias) st)
      | Inr db \<Rightarrow> (Inr (Ret_database db), log (Ev_get_db alias) st))"

definition not_defined_msg :: "env \<Rightarrow> pyval \<Rightarrow> string" where
  "not_defined_msg env alias =
     (if alias = PStr DEFAULT_CONNECTION_NAME then ''You have not defined a default connection''
      else ''Connection with alias \"'' @ py_str env alias @ ''\" has not been defined'')"

definition cannot_connect_msg :: "env \<Rightarrow> pyval \<Rightarrow> exc \<Rightarrow> string" where
  "cannot_connect_msg env alias e =
     ''Cannot connect to database '' @ py_str env alias @ '' :'' @ [CHR 0x0A] @ str_of_exc env e"

text \<open>
  The loop of the connection-sharing pass over \<^verbatim>\<open>_connection_settings.items()\<close>, with the
  local variable \<^verbatim>\<open>connection\<close>. The copy of each descriptor, stripped of name, username
  and password, is built and never read. An exception of the loop is returned as it is; the
  caller wraps it.
\<close>

fun sharing_loop ::
  "env \<Rightarrow> pyval \<Rightarrow> connection_class \<Rightarrow> dict \<Rightarrow> client option \<Rightarrow> (pyval \<times> dict) list \<Rightarrow>
   state \<Rightarrow> (exc + client option) \<times> state" where
  "sharing_loop env alias cc conn_settings connection [] st = (Inr connection, st)"
| "sharing_loop env alias cc conn_settings connection ((db_alias, settings) # rest) st =
     (let connection_settings =
            dict_pop ''password'' (dict_pop ''username'' (dict_pop ''name'' settings))
      in case map_of (connections st) db_alias of
           Some c \<Rightarrow> (Inr (Some c), st)
         | None \<Rightarrow>
             (case connection of
                Some c \<Rightarrow>
                  sharing_loop env alias cc conn_settings connection rest
                    (st\<lparr>connections := dict_set alias c (connections st)\<rparr>)
              | None \<Rightarrow>
                  (case cc of
                     Unbound \<Rightarrow> (Inl (UnboundLocalError ''connection_class''), st)
                   | Class_None \<Rightarrow> sharing_loop env alias cc conn_settings connection rest st
                   | Mongomock_MongoClient \<Rightarrow>
                       (case mongomock_MongoClient env (trace st) conn_settings of
                          Inl e \<Rightarrow> (Inl e, log (Ev_mock_client conn_settings) st)
                        | Inr c \<Rightarrow>
                            sharing_loop env alias cc conn_settings connection rest
                              ((log (Ev_mock_client conn_settings) st)
                                 \<lparr>connections :=
                                    dict_set alias c (connections st)\<rparr>)))))"

text \<open>
  The \<^verbatim>\<open>try\<close> block around the pass and the final \<^verbatim>\<open>get_db\<close>, which is outside it.
\<close>

definition share_connections ::
  "env \<Rightarrow> pyval \<Rightarrow> connection_class \<Rightarrow> dict \<Rightarrow> state \<Rightarrow> (error + ret) \<times> state" where
  "share_connections env alias cc conn_settings st =
     (case sharing_loop env alias cc conn_settings None (connection_settings st) st of
        (Inl e, st1) \<Rightarrow> (Inl (ConnectionError (cannot_connect_msg env alias e)), st1)
      | (Inr connection, st1) \<Rightarrow> connection_get_db env alias st1)"

text \<open>
  \<^verbatim>\<open>_connections[alias] = mongoengine.connect(db_name, **conn_settings)\<close>, outside the
  \<^verbatim>\<open>try\<close> block, followed by the pass.
\<close>

definition connect_default ::
  "env \<Rightarrow> pyval \<Rightarrow> connection_class \<Rightarrow> pyval \<Rightarrow> dict \<Rightarrow> state \<Rightarrow> (error + ret) \<times> state" where
  "connect_default env alias cc db_name conn_settings st =
     (case mongoengine_connect env (trace st) db_name conn_settings of
        Inl e \<Rightarrow> (Inl (Raised e), log (Ev_connect db_name conn_settings) st)
      | Inr c \<Rightarrow>
          share_connections env alias cc conn_settings
            ((log (Ev_connect db_name conn_settings) st)
               \<lparr>connections := dict_set alias c (connections st)\<rparr>))"

text \<open>
  The dispatch after validation. In a host that starts with \<^verbatim>\<open>mongomock://\<close> the first
  occurrence of that prefix, which \<^verbatim>\<open>replace(..., 1)\<close> rewrites, is the head of the string.
\<close>

definition mongomock_missing_msg :: string where
  "mongomock_missing_msg = ''You need mongomock installed to mock MongoEngine.''"

definition establish ::
  "env \<Rightarrow> pyval \<Rightarrow> pyval \<Rightarrow> pyval \<Rightarrow> pyval \<Rightarrow> pyval \<Rightarrow> pyval \<Rightarrow> dict \<Rightarrow> state \<Rightarrow>
   (error + ret) \<times> state" where
  "establish env alias is_test temp_db preserved conn_host db_name conn_settings st =
     (if truthy is_test then
        if truthy temp_db then
          (case map_of conn_settings ''alias'' of
             None \<Rightarrow> (Inl (KeyError ''alias''), st)
           | Some db_alias \<Rightarrow>
               (case map_of conn_settings ''port'' of
                  None \<Rightarrow> (Inl (KeyError ''port''), st)
                | Some port \<Rightarrow> register_test_connection env port db_alias preserved st))
        else
          (case py_startswith conn_host ''mongomock://'' of
             Inl e \<Rightarrow> (Inl e, st)
           | Inr mock \<Rightarrow>
               if mock \<and> tuple_less (mongoengine_VERSION env) [0, 10, 6] then
                 if \<not> mongomock_importable env
                 then (Inl (RuntimeError mongomock_missing_msg), st)
                 else share_connections env alias Mongomock_MongoClient
                        (dict_set ''host''
                           (PStr (''mongodb://'' @
                              drop (length ''mongomock://'') (py_str env conn_host)))
                           conn_settings) st
               else connect_default env alias Class_None db_name conn_settings st)
      else connect_default env alias Unbound db_name conn_settings st)"

text \<open>
  \<^verbatim>\<open>get_connection\<close> from line 101 on, that is, without the reconnect step. \<^verbatim>\<open>disconnect\<close>
  calls \<^verbatim>\<open>get_connection(alias=alias)\<close>, which is this part.
\<close>

definition get_connection_body :: "env \<Rightarrow> pyval \<Rightarrow> state \<Rightarrow> (error + ret) \<times> state" where
  "get_connection_body env alias st =
     (if \<not> hashable alias then (Inl (TypeError ''unhashable type''), st)
      else if dict_in alias (connections st) then connection_get_db env alias st
      else if \<not> dict_in alias (connection_settings st)
      then (Inl (ConnectionError (not_defined_msg env alias)), st)
      else (case map_of (dict_get (connection_settings st) alias []) ''host'' of
              None \<Rightarrow> (Inl (KeyError ''host''), st)
            | Some conn_host \<Rightarrow>
                (case map_of (dict_get (connection_settings st) alias []) ''name'' of
                   None \<Rightarrow> (Inl (KeyError ''name''), st)
                 | Some db_name \<Rightarrow>
                     bind (get_app_config env ''TESTING'') (\<lambda>is_test.
                     bind (get_app_config env ''TEMP_DB'') (\<lambda>temp_db.
                     bind (get_app_config env ''PRESERVE_TEMP_DB'') (\<lambda>preserved st'.
                       case validate_settings is_test temp_db preserved conn_host of
                         Inl e \<Rightarrow> (Inl e, st')
                       | Inr u \<Rightarrow>
                           establish env alias is_test temp_db preserved conn_host db_name
                             (dict_pop ''name'' (dict_get (connection_settings st) alias []))
                             st'))) st)))"

section \<open>Disconnecting\<close>

definition sock_file :: string where
  "sock_file = ''mongodb-27111.sock''"

text \<open>The removal of the temporary directory and of the socket file.\<close>

definition remove_temporary :: "env \<Rightarrow> state \<Rightarrow> (error + unit) \<times> state" where
  "remove_temporary env st =
     (case os_path_exists env (trace st) (tmpdir st) of
        Inl e \<Rightarrow> (Inl (Raised e), st)
      | Inr dir_exists \<Rightarrow>
          (case os_path_exists env
                  (trace (if dir_exists then log (Ev_rmtree (tmpdir st)) st else st))
                  (PStr sock_file) of
             Inl e \<Rightarrow> (Inl (Raised e), if dir_exists then log (Ev_rmtree (tmpdir st)) st else st)
           | Inr sock_exists \<Rightarrow>
               if sock_exists then
                 (case os_remove env
                         (trace (if dir_exists then log (Ev_rmtree (tmpdir st)) st else st))
                         (tempfile_gettempdir env @ ''/'' @ sock_file) of
                    Some e \<Rightarrow>
                      (Inl (Raised e),
                       log (Ev_remove (tempfile_gettempdir env @ ''/'' @ sock_file))
                         (if dir_exists then log (Ev_rmtree (tmpdir st)) st else st))
                  | None \<Rightarrow>
                      (Inr (),
                       log (Ev_remove (tempfile_gettempdir env @ ''/'' @ sock_file))
                         (if dir_exists then log (Ev_rmtree (tmpdir st)) st else st)))
               else (Inr (), if dir_exists then log (Ev_rmtree (tmpdir st)) st else st)))"

text \<open>
  The first block of \<^verbatim>\<open>disconnect\<close>: fetch the handle through \<^verbatim>\<open>get_connection\<close>, close
  its client if it has one and the handle itself otherwise, delete the registry entry.
  With the alias connected, \<^verbatim>\<open>get_connection\<close> returns a database handle; the other two
  shapes of result have no \<^verbatim>\<open>client\<close> to close.
\<close>

definition close_connection :: "env \<Rightarrow> pyval \<Rightarrow> state \<Rightarrow> (error + unit) \<times> state" where
  "close_connection env alias st =
     (case get_connection_body env alias st of
        (Inl e, st1) \<Rightarrow> (Inl e, st1)
      | (Inr conn, st1) \<Rightarrow>
          (case conn of
             Ret_database db \<Rightarrow>
               (case db of
                  Database n (Some client) \<Rightarrow>
                    (Inr (), (log (Ev_close_client client) st1)
                               \<lparr>connections := dict_pop alias (connections st1)\<rparr>)
                | Database n None \<Rightarrow>
                    (Inr (), (log (Ev_close_database db) st1)
                               \<lparr>connections := dict_pop alias (connections st1)\<rparr>))
           | _ \<Rightarrow> (Inl (AttributeError ''client''), st1)))"

definition stop_process :: "state \<Rightarrow> state" where
  "stop_process st =
     (case process st of
        Some p \<Rightarrow> (log (Ev_wait p) (log (Ev_terminate p) st))\<lparr>process := None\<rparr>
      | None \<Rightarrow> st)"

definition disconnect :: "env \<Rightarrow> pyval \<Rightarrow> pyval \<Rightarrow> state \<Rightarrow> (error + unit) \<times> state" where
  "disconnect env alias preserved st =
     (if \<not> hashable alias then (Inl (TypeError ''unhashable type''), st)
      else (case (if dict_in alias (connections st) then close_connection env alias st
                  else (Inr (), st)) of
              (Inl e, st1) \<Rightarrow> (Inl e, st1)
            | (Inr u, st1) \<Rightarrow>
                if \<not> truthy preserved \<and> truthy (tmpdir (stop_process st1))
                then remove_temporary env (stop_process st1)
                else (Inr (), stop_process st1)))"

text \<open>
  \<^verbatim>\<open>get_connection\<close>. The preserve argument of the reconnect step is
  \<^verbatim>\<open>_connection_settings.get('preserve_temp_db', False)\<close>, a lookup in the registry of
  descriptors, which is keyed by alias.
\<close>

definition get_connection :: "env \<Rightarrow> pyval \<Rightarrow> bool \<Rightarrow> state \<Rightarrow> (error + ret) \<times> state" where
  "get_connection env alias reconnect st =
     (if reconnect then
        (case disconnect env alias
                (case map_of (connection_settings st) (PStr ''preserve_temp_db'') of
                   Some d \<Rightarrow> PDict d
                 | None \<Rightarrow> PBool False) st of
           (Inl e, st1) \<Rightarrow> (Inl e, st1)
         | (Inr u, st1) \<Rightarrow> get_connection_body env alias st1)
      else get_connection_body env alias st)"

section \<open>Creating connections\<close>

text \<open>The loop of \<^verbatim>\<open>create_connection\<close> over a list of descriptors.\<close>

fun create_each ::
  "env \<Rightarrow> pyval list \<Rightarrow> (pyval \<times> ret) list \<Rightarrow> state \<Rightarrow>
   (error + (pyval \<times> ret) list) \<times> state" where
  "create_each env [] conns st = (Inr conns, st)"
| "create_each env (conn_setting # rest) conns st =
     (case conn_setting of
        PDict d \<Rightarrow>
          (case map_of d ''alias'' of
             None \<Rightarrow> (Inl (KeyError ''alias''), st)
           | Some alias \<Rightarrow>
               if \<not> hashable alias then (Inl (TypeError ''unhashable type''), st)
               else (case get_connection env alias False
                            (st\<lparr>connection_settings :=
                                  dict_set alias d (connection_settings st)\<rparr>) of
                       (Inl e, st1) \<Rightarrow> (Inl e, st1)
                     | (Inr conn, st1) \<Rightarrow> create_each env rest (dict_set alias conn conns) st1))
      | _ \<Rightarrow> (Inl (TypeError ''alias''), st))"

text \<open>
  \<^verbatim>\<open>create_connection(config, app)\<close>; \<open>app\<close> is \<open>None\<close> for a falsy argument and the
  application's configuration otherwise.
\<close>

definition create_connection ::
  "env \<Rightarrow> pyval \<Rightarrow> dict option \<Rightarrow> state \<Rightarrow> (error + created) \<times> state" where
  "create_connection env config app st =
     (case config of
        PDict cfg \<Rightarrow>
          (case fetch_connection_settings cfg False of
             PList conn_settings \<Rightarrow>
               (case create_each env conn_settings []
                       (st\<lparr>app_instance :=
                             (case app of Some c \<Rightarrow> App_object c | None \<Rightarrow> App_value config)\<rparr>) of
                  (Inl e, st1) \<Rightarrow> (Inl e, st1)
                | (Inr conns, st1) \<Rightarrow> (Inr (Created_many conns), st1))
           | PDict conn_settings \<Rightarrow>
               if \<not> hashable (dict_get conn_settings ''alias'' (PStr DEFAULT_CONNECTION_NAME))
               then (Inl (TypeError ''unhashable type''),
                     st\<lparr>app_instance :=
                          (case app of Some c \<Rightarrow> App_object c | None \<Rightarrow> App_value config)\<rparr>)
               else (case get_connection env
                            (dict_get conn_settings ''alias'' (PStr DEFAULT_CONNECTION_NAME)) False
                            (st\<lparr>app_instance :=
                                  (case app of Some c \<Rightarrow> App_object c | None \<Rightarrow> App_value config),
                                connection_settings :=
                                  dict_set
                                    (dict_get conn_settings ''alias'' (PStr DEFAULT_CONNECTION_NAME))
                                    conn_settings (connection_settings st)\<rparr>) of
                       (Inl e, st1) \<Rightarrow> (Inl e, st1)
                     | (Inr conn, st1) \<Rightarrow> (Inr (Created_one conn), st1))
           | _ \<Rightarrow>
               (Inl (AttributeError ''get''),
                st\<lparr>app_instance :=
                     (case app of Some c \<Rightarrow> App_object c | None \<Rightarrow> App_value config)\<rparr>))
      | _ \<Rightarrow>
          (Inl (InvalidSettingsError ''Invalid application configuration''),
           st\<lparr>app_instance :=
                (case app of Some c \<Rightarrow> App_object c | None \<Rightarrow> App_value config)\<rparr>))"

section \<open>Traces of the readiness wait and example inputs\<close>

text \<open>What \<open>k\<close> attempts of the readiness loop add to the trace.\<close>

definition attempts :: "pyval \<Rightarrow> nat \<Rightarrow> event list" where
  "attempts port k = concat (replicate k [Ev_sleep 100, Ev_mongo_client port])"

text \<open>
  Concrete inputs for the theorems below: a resolved descriptor, registry states, and a
  world in which every external call succeeds, the test instance accepting clients from the
  second attempt on (\<open>demo_env\<close>) or never (\<open>refusing_env\<close>).
\<close>

definition example_descriptor :: "string \<Rightarrow> string \<Rightarrow> string \<Rightarrow> dict" where
  "example_descriptor alias host name =
     [(''name'', PStr name), (''alias'', PStr alias), (''host'', PStr host),
      (''port'', PInt 27017), (''username'', PNone),
      (''read_preference'', PReadPreference PRIMARY)]"

definition example_state :: "(pyval \<times> dict) list \<Rightarrow> (pyval \<times> client) list \<Rightarrow> dict \<Rightarrow> state" where
  "example_state settings clients app_config =
     \<lparr>connection_settings = settings, connections = clients, tmpdir = PNone,
      process = None, app_instance = App_object app_config, trace = []\<rparr>"

definition two_aliases :: "string \<Rightarrow> (pyval \<times> dict) list" where
  "two_aliases host =
     [(PStr ''a'', example_descriptor ''a'' host ''db_a''),
      (PStr ''b'', example_descriptor ''b'' host ''db_b'')]"

definition provisioned_state :: "(pyval \<times> dict) list \<Rightarrow> dict \<Rightarrow> state" where
  "provisioned_state settings app_config =
     \<lparr>connection_settings = settings, connections = [(PStr ''a'', Client 7)],
      tmpdir = PStr ''/tmp/tmpdb'', process = Some (Process 2),
      app_instance = App_object app_config, trace = []\<rparr>"

definition prepared_state :: state where
  "prepared_state =
     \<lparr>connection_settings = [], connections = [], tmpdir = PStr ''/tmp/tmpdb'', process = None,
      app_instance = Current_app, trace = [Ev_exec ''mongod --version'', Ev_mkdtemp]\<rparr>"

definition demo_env :: env where
  "demo_env =
     \<lparr>mongoengine_connect = (\<lambda>tr db_name conn_settings. Inr (Client (length tr))),
      mongoengine_get_db = (\<lambda>tr alias. Inr (Database (length tr) (Some (Client 7)))),
      mongoengine_VERSION = [0, 10, 5],
      mongomock_importable = True,
      mongomock_MongoClient = (\<lambda>tr conn_settings. Inr (Client (length tr))),
      pymongo_MongoClient =
        (\<lambda>tr port. if length tr < 6 then Inl (ConnectionFailure ''refused'')
                    else Inr (Client (length tr))),
      subprocess_shell = (\<lambda>tr cmd. Inr (0, ''db version v3.2.22'', [])),
      subprocess_Popen = (\<lambda>tr port dbpath. Inr (Process (length tr))),
      current_app_config = (\<lambda>tr. Inr []),
      tempfile_mkdtemp = (\<lambda>tr. Inr ''/tmp/tmpdb''),
      tempfile_gettempdir = ''/tmp'',
      os_path_exists = (\<lambda>tr path. Inr True),
      os_remove = (\<lambda>tr path. None),
      str_of = (\<lambda>v. ''?''),
      str_of_exc = (\<lambda>e. ''error'')\<rparr>"

definition refusing_env :: env where
  "refusing_env =
     demo_env\<lparr>pymongo_MongoClient := \<lambda>tr port. Inl (ConnectionFailure ''refused'')\<rparr>"

section \<open>Reachable registry states\<close>

text \<open>
  The states the module can be in: the state at import time, and every state that
  \<^verbatim>\<open>create_connection\<close>, \<^verbatim>\<open>get_connection\<close> (which reaches the provisioning of the
  test instance) or \<^verbatim>\<open>disconnect\<close> leaves behind, whether the call returns or raises and
  whatever the external calls answer. The host application may change the configuration
  that \<^verbatim>\<open>_app_instance\<close> refers to between two calls.
\<close>

inductive reachable :: "state \<Rightarrow> bool" where
  initial: "reachable initial_state"
| configured: "reachable st \<Longrightarrow> reachable (st\<lparr>app_instance := a\<rparr>)"
| created: "reachable st \<Longrightarrow> create_connection env config app st = (r, st') \<Longrightarrow> reachable st'"
| got: "reachable st \<Longrightarrow> get_connection env alias reconnect st = (r', st') \<Longrightarrow> reachable st'"
| disconnected: "reachable st \<Longrightarrow> disconnect env alias preserved st = (r'', st') \<Longrightarrow> reachable st'"

text \<open>Predicates used in the proofs: what a call leaves untouched in the registry.\<close>

definition same_registry :: "state \<Rightarrow> state \<Rightarrow> bool" where
  "same_registry st st' \<longleftrightarrow>
     connection_settings st' = connection_settings st \<and> connections st' = connections st"

definition frame :: "pyval set \<Rightarrow> state \<Rightarrow> state \<Rightarrow> bool" where
  "frame A st st' \<longleftrightarrow>
     connection_settings st' = connection_settings st \<and>
     fst ` set (connections st') \<subseteq> A \<union> fst ` set (connections st)"

definition registry_inv :: "state \<Rightarrow> bool" where
  "registry_inv st \<longleftrightarrow>
     fst ` set (connections st) \<subseteq> fst ` set (connection_settings st) \<and>
     (\<forall>kd \<in> set (connection_settings st).
        map_of (snd kd) ''alias'' = None \<or> map_of (snd kd) ''alias'' = Some (fst kd))"

text \<open>The shape of a resolved mapping before the \<^verbatim>\<open>replicaSet\<close> entry is appended.\<close>

definition well_resolved :: "dict \<Rightarrow> bool" where
  "well_resolved q \<longleftrightarrow>
     distinct (map fst q) \<and> (\<forall>k \<in> fst ` set q. lower k = k) \<and>
     {''name'', ''alias'', ''host'', ''port'', ''username'', ''read_preference''} \<subseteq> fst ` set q \<and>
     ''db'' \<notin> fst ` set q \<and> ''replicaset'' \<notin> fst ` set q"

section \<open>Properties of settings resolution\<close>

lemma lower_char_simple: "lower_char (lower_char c) = lower_char c"
  by (simp add: lower_char_def Let_def)

lemma keys_resolve_item:
  "fst ` set (resolve_item (Some p) kv acc) =
     fst ` set acc \<union> (if startswith (fst kv) p then {lower (drop (length p) (fst kv))} else {})"
  by (cases "p = []")
     (auto simp: resolve_item_def prefix_given_def startswith_def dict_set_def AList.dom_update)

lemma keys_resolve_fold:
  "fst ` set (fold (resolve_item (Some p)) items acc) =
     fst ` set acc \<union> (\<lambda>k. lower (drop (length p) k)) ` {k \<in> fst ` set items. startswith k p}"
proof (induction items arbitrary: acc)
  case Nil
  then show ?case by simp
next
  case (Cons kv items)
  have "fst ` set (fold (resolve_item (Some p)) (kv # items) acc) =
        fst ` set (resolve_item (Some p) kv acc) \<union>
        (\<lambda>k. lower (drop (length p) k)) ` {k \<in> fst ` set items. startswith k p}"
    by (simp add: Cons.IH)
  also have "\<dots> = fst ` set acc \<union>
        (\<lambda>k. lower (drop (length p) k)) ` {k \<in> fst ` set (kv # items). startswith k p}"
    unfolding keys_resolve_item by auto
  finally show ?case .
qed

lemma set_update_subset: "set (AList.update k v al) \<subseteq> insert (k, v) (set al)"
  by (induction al) auto

lemma entries_resolve_fold:
  "set (fold (resolve_item (Some p)) items acc) \<subseteq>
     set acc \<union> (\<lambda>kv. (lower (drop (length p) (fst kv)), snd kv)) `
       {kv \<in> set items. startswith (fst kv) p}"
proof (induction items arbitrary: acc)
  case Nil
  then show ?case by simp
next
  case (Cons kv items)
  have step: "set (resolve_item (Some p) kv acc) \<subseteq>
     set acc \<union> (\<lambda>kv. (lower (drop (length p) (fst kv)), snd kv)) `
       {x \<in> {kv}. startswith (fst x) p}"
    using set_update_subset [of "lower (drop (length p) (fst kv))" "snd kv" acc]
          set_update_subset [of "lower (fst kv)" "snd kv" acc]
    by (cases "p = []") (auto simp: resolve_item_def prefix_given_def dict_set_def startswith_def)
  show ?case
    using Cons.IH [of "resolve_item (Some p) kv acc"] step by auto
qed

lemma no_prefix_fold:
  "\<forall>k \<in> fst ` set items. \<not> startswith k p \<Longrightarrow> p \<noteq> [] \<Longrightarrow>
   fold (resolve_item (Some p)) items acc = acc"
  by (induction items arbitrary: acc) (auto simp: resolve_item_def prefix_given_def)

lemma dict_in_keys: "dict_in k d \<longleftrightarrow> k \<in> fst ` set d"
  by (simp add: dict_in_def map_of_eq_None_iff)

lemma update_append:
  "AList.update k v (xs @ ys) =
     (if k \<in> fst ` set xs then AList.update k v xs @ ys else xs @ AList.update k v ys)"
  by (induction xs) auto

lemma delete_append: "AList.delete k (xs @ ys) = AList.delete k xs @ AList.delete k ys"
  by (simp add: AList.delete_eq)

lemma update_fresh: "k \<notin> fst ` set d \<Longrightarrow> AList.update k v d = d @ [(k, v)]"
  by (induction d) auto

lemma lower_idem: "lower (lower s) = lower s"
  by (simp add: lower_def lower_char_simple)

lemma resolve_item_None: "resolve_item None kv acc = AList.update (lower (fst kv)) (snd kv) acc"
  by (simp add: resolve_item_def prefix_given_def dict_set_def)

lemma keys_fold_None:
  "fst ` set (fold (resolve_item None) items acc) = fst ` set acc \<union> lower ` fst ` set items"
  by (induction items arbitrary: acc) (auto simp: resolve_item_None AList.dom_update)

lemma distinct_fold_None:
  "distinct (map fst acc) \<Longrightarrow> distinct (map fst (fold (resolve_item None) items acc))"
  by (induction items arbitrary: acc) (auto simp: resolve_item_None AList.distinct_update)

lemma fold_None_fresh:
  "distinct (map (\<lambda>kv. lower (fst kv)) d) \<Longrightarrow>
   (\<lambda>kv. lower (fst kv)) ` set d \<inter> fst ` set acc = {} \<Longrightarrow>
   fold (resolve_item None) d acc = acc @ map (\<lambda>kv. (lower (fst kv), snd kv)) d"
proof (induction d arbitrary: acc)
  case Nil
  then show ?case by simp
next
  case (Cons kv d)
  have fresh: "lower (fst kv) \<notin> fst ` set acc"
    using Cons.prems(2) by auto
  have step: "resolve_item None kv acc = acc @ [(lower (fst kv), snd kv)]"
    by (simp add: resolve_item_None update_fresh [OF fresh])
  have "fold (resolve_item None) d (acc @ [(lower (fst kv), snd kv)]) =
        (acc @ [(lower (fst kv), snd kv)]) @ map (\<lambda>kv. (lower (fst kv), snd kv)) d"
    using Cons.prems by (intro Cons.IH) auto
  then show ?case
    by (simp add: step)
qed

lemma lower_literals:
  "lower ''name'' = ''name''" "lower ''alias'' = ''alias''" "lower ''host'' = ''host''"
  "lower ''port'' = ''port''" "lower ''username'' = ''username''"
  "lower ''read_preference'' = ''read_preference''"
  "lower ''replicaSet'' = ''replicaset''"
  by code_simp+

lemma set_default_present: "k \<in> fst ` set d \<Longrightarrow> set_default k x d = d"
proof -
  assume "k \<in> fst ` set d"
  then obtain v where v: "map_of d k = Some v"
    by (metis map_of_eq_None_iff not_Some_eq)
  then show ?thesis
    by (simp add: set_default_def dict_set_def dict_get_def AList.update_triv)
qed

lemma resolve_defaults_present:
  "{''alias'', ''host'', ''port'', ''username'', ''read_preference''} \<subseteq> fst ` set d \<Longrightarrow>
   resolve_defaults d = d"
  by (simp add: resolve_defaults_def set_default_present)

lemma map_lower_id:
  "\<forall>k \<in> fst ` set q. lower k = k \<Longrightarrow> map (\<lambda>kv. (lower (fst kv), snd kv)) q = q"
  by (induction q) auto

lemma second_items:
  assumes "well_resolved q" and "tail = [] \<or> tail = [(''replicaSet'', v)]"
  shows "resolve_items None (q @ tail) = q @ map (\<lambda>kv. (lower (fst kv), snd kv)) tail"
proof -
  have low: "\<forall>k \<in> fst ` set q. lower k = k" and dist: "distinct (map fst q)"
    and norep: "''replicaset'' \<notin> fst ` set q"
    using assms(1) by (auto simp: well_resolved_def)
  have m: "map (\<lambda>kv. lower (fst kv)) q = map fst q"
    using low by (induction q) auto
  have "distinct (map (\<lambda>kv. lower (fst kv)) (q @ tail))"
    using assms(2) dist norep by (force simp: m lower_literals)
  then have "fold (resolve_item None) (q @ tail) [] = [] @ map (\<lambda>kv. (lower (fst kv), snd kv)) (q @ tail)"
    by (intro fold_None_fresh) auto
  then show ?thesis
    by (simp add: resolve_items_def map_lower_id [OF low])
qed

lemma second_pass:
  assumes wr: "well_resolved q" and tl: "tail = [] \<or> tail = [(''replicaSet'', v)]"
    and pw: "rp \<longrightarrow> ''password'' \<notin> fst ` set q"
  shows "resolve_password rp (resolve_replicaset (resolve_defaults (resolve_name
           (resolve_items None (q @ tail))))) = AList.update ''name'' (PStr ''test'') q @ tail"
proof -
  let ?q' = "AList.update ''name'' (PStr ''test'') q"
  let ?tl' = "map (\<lambda>kv. (lower (fst kv), snd kv)) tail"
  have keys: "{''name'', ''alias'', ''host'', ''port'', ''username'', ''read_preference''} \<subseteq> fst ` set q"
    and nodb: "''db'' \<notin> fst ` set q" and norep: "''replicaset'' \<notin> fst ` set q"
    and low: "\<forall>k \<in> fst ` set q. lower k = k"
    using wr by (auto simp: well_resolved_def)
  have name_in: "''name'' \<in> fst ` set q"
    using keys by simp
  have keys': "fst ` set ?q' = fst ` set q"
    using name_in by (auto simp: AList.dom_update)
  have noRS: "''replicaSet'' \<notin> fst ` set q"
    using low lower_literals(7) by force
  have a: "resolve_items None (q @ tail) = q @ ?tl'"
    by (rule second_items [OF wr tl])
  have nodb': "\<not> dict_in ''db'' (q @ ?tl')"
    using tl nodb by (auto simp: dict_in_keys lower_literals)
  have b: "resolve_name (q @ ?tl') = ?q' @ ?tl'"
    using nodb' name_in by (simp add: resolve_name_def dict_set_def update_append)
  have c: "resolve_defaults (?q' @ ?tl') = ?q' @ ?tl'"
    using keys keys' by (intro resolve_defaults_present) auto
  have d: "resolve_replicaset (?q' @ ?tl') = ?q' @ tail"
  proof (cases "tail = []")
    case True
    then show ?thesis
      using norep keys' by (simp add: resolve_replicaset_def dict_in_keys)
  next
    case False
    then have t: "tail = [(''replicaSet'', v)]"
      using tl by simp
    let ?l = "?q' @ [(''replicaset'', v)]"
    have tl': "?tl' = [(''replicaset'', v)]"
      by (simp add: t lower_literals)
    have in_rs: "dict_in ''replicaset'' ?l"
      by (simp add: dict_in_keys)
    have nomap: "map_of ?q' ''replicaset'' = None"
      using norep keys' by (simp add: map_of_eq_None_iff)
    have get: "dict_get ?l ''replicaset'' PNone = v"
      using nomap by (simp add: dict_get_def map_add_def)
    have del: "dict_pop ''replicaset'' ?l = ?q'"
      using norep keys' by (simp add: dict_pop_def delete_append)
    have upd: "dict_set ''replicaSet'' v ?q' = ?q' @ tail"
      using noRS keys' by (simp add: t dict_set_def update_fresh)
    show ?thesis
      unfolding resolve_replicaset_def tl' by (simp only: in_rs if_True get del upd)
  qed
  have e: "resolve_password rp (?q' @ tail) = ?q' @ tail"
  proof (cases rp)
    case True
    then have "''password'' \<notin> fst ` set ?q'"
      using pw keys' by simp
    then show ?thesis
      using tl by (auto simp: resolve_password_def dict_pop_def delete_append)
  next
    case False
    then show ?thesis by (simp add: resolve_password_def)
  qed
  show ?thesis
    by (simp only: a b c d e)
qed

lemma keys_delete: "fst ` set (AList.delete k d) = fst ` set d - {k}"
  by (induction d) auto

lemma keys_set_default: "fst ` set (set_default k x d) = insert k (fst ` set d)"
  by (simp add: set_default_def dict_set_def AList.dom_update)

lemma distinct_set_default: "distinct (map fst d) \<Longrightarrow> distinct (map fst (set_default k x d))"
  by (simp add: set_default_def dict_set_def AList.distinct_update)

lemma keys_resolve_name: "fst ` set (resolve_name d) = insert ''name'' (fst ` set d - {''db''})"
  by (auto simp: resolve_name_def dict_set_def dict_pop_def dict_in_keys AList.dom_update keys_delete)

lemma distinct_resolve_name: "distinct (map fst d) \<Longrightarrow> distinct (map fst (resolve_name d))"
  by (simp add: resolve_name_def dict_set_def dict_pop_def AList.distinct_update AList.distinct_delete)

lemma keys_resolve_defaults:
  "fst ` set (resolve_defaults d) =
     {''alias'', ''host'', ''port'', ''username'', ''read_preference''} \<union> fst ` set d"
  by (auto simp: resolve_defaults_def keys_set_default)

lemma distinct_resolve_defaults:
  "distinct (map fst d) \<Longrightarrow> distinct (map fst (resolve_defaults d))"
  by (simp add: resolve_defaults_def distinct_set_default)

lemma first_pass_core:
  fixes items :: dict and rp :: bool
  defines "r2 \<equiv> resolve_defaults (resolve_name (resolve_items None items))"
  shows "distinct (map fst r2)" and "\<forall>k \<in> fst ` set r2. lower k = k"
    and "{''name'', ''alias'', ''host'', ''port'', ''username'', ''read_preference''} \<subseteq> fst ` set r2"
    and "''db'' \<notin> fst ` set r2"
proof -
  let ?r0 = "resolve_items None items"
  have k0: "fst ` set ?r0 = lower ` fst ` set items"
    by (simp add: resolve_items_def keys_fold_None)
  have d0: "distinct (map fst ?r0)"
    by (simp add: resolve_items_def distinct_fold_None)
  show "distinct (map fst r2)"
    unfolding r2_def by (intro distinct_resolve_defaults distinct_resolve_name d0)
  have k2: "fst ` set r2 = {''alias'', ''host'', ''port'', ''username'', ''read_preference''} \<union>
               insert ''name'' (lower ` fst ` set items - {''db''})"
    unfolding r2_def by (simp only: keys_resolve_defaults keys_resolve_name k0)
  show "\<forall>k \<in> fst ` set r2. lower k = k"
    unfolding k2 by (auto simp: lower_literals lower_idem)
  show "{''name'', ''alias'', ''host'', ''port'', ''username'', ''read_preference''} \<subseteq> fst ` set r2"
    unfolding k2 by auto
  show "''db'' \<notin> fst ` set r2"
    unfolding k2 by auto
qed

lemma first_pass_shape:
  fixes items :: dict and rp :: bool
  defines "r \<equiv> resolve_password rp (resolve_replicaset (resolve_defaults (resolve_name
                  (resolve_items None items))))"
  shows "\<exists>q tail v. r = q @ tail \<and> well_resolved q \<and> (tail = [] \<or> tail = [(''replicaSet'', v)]) \<and>
           (rp \<longrightarrow> ''password'' \<notin> fst ` set q)"
proof -
  let ?r2 = "resolve_defaults (resolve_name (resolve_items None items))"
  note core = first_pass_core [of items]
  have noRS: "''replicaSet'' \<notin> fst ` set ?r2"
    using core(2) lower_literals(7) by force
  show ?thesis
  proof (cases "dict_in ''replicaset'' ?r2")
    case False
    let ?q = "resolve_password rp ?r2"
    have kq: "fst ` set ?q = fst ` set ?r2 - (if rp then {''password''} else {})"
      by (simp add: resolve_password_def dict_pop_def keys_delete)
    have "well_resolved ?q"
      unfolding well_resolved_def kq
      using core False by (auto simp: dict_in_keys resolve_password_def dict_pop_def AList.distinct_delete)
    moreover have "r = ?q @ []"
      using False by (simp add: r_def resolve_replicaset_def)
    moreover have "rp \<longrightarrow> ''password'' \<notin> fst ` set ?q"
      unfolding kq by simp
    ultimately show ?thesis by blast
  next
    case True
    let ?v = "dict_get ?r2 ''replicaset'' PNone"
    let ?d = "AList.delete ''replicaset'' ?r2"
    let ?q = "resolve_password rp ?d"
    have kd: "fst ` set ?d = fst ` set ?r2 - {''replicaset''}"
      by (simp add: keys_delete)
    have kq: "fst ` set ?q = fst ` set ?r2 - {''replicaset''} - (if rp then {''password''} else {})"
      by (simp add: resolve_password_def dict_pop_def keys_delete)
    have r3: "resolve_replicaset ?r2 = ?d @ [(''replicaSet'', ?v)]"
      using True noRS kd by (simp add: resolve_replicaset_def dict_set_def dict_pop_def update_fresh)
    have "r = ?q @ [(''replicaSet'', ?v)]"
      unfolding r_def r3 by (simp add: resolve_password_def dict_pop_def delete_append)
    moreover have "well_resolved ?q"
      unfolding well_resolved_def kq
      using core by (auto simp: resolve_password_def dict_pop_def AList.distinct_delete)
    moreover have "rp \<longrightarrow> ''password'' \<notin> fst ` set ?q"
      unfolding kq by simp
    ultimately show ?thesis by blast
  qed
qed

lemma update_same_iff:
  "AList.update k v d = d \<longleftrightarrow> map_of d k = Some v"
proof
  assume "AList.update k v d = d"
  then have "map_of d k = map_of (AList.update k v d) k" by simp
  then show "map_of d k = Some v" by (simp add: AList.update_conv')
qed (rule AList.update_triv)

lemma resolve_twice:
  fixes items :: dict and rp :: bool
  defines "r \<equiv> resolve_password rp (resolve_replicaset (resolve_defaults (resolve_name
                  (resolve_items None items))))"
  shows "resolve_password rp (resolve_replicaset (resolve_defaults (resolve_name
                  (resolve_items None r)))) = AList.update ''name'' (PStr ''test'') r"
proof -
  obtain q tail v where r: "r = q @ tail" and wr: "well_resolved q"
    and tl: "tail = [] \<or> tail = [(''replicaSet'', v)]" and pw: "rp \<longrightarrow> ''password'' \<notin> fst ` set q"
    using first_pass_shape [of rp items] unfolding r_def by blast
  have "''name'' \<in> fst ` set q"
    using wr by (simp add: well_resolved_def)
  then have "AList.update ''name'' (PStr ''test'') r = AList.update ''name'' (PStr ''test'') q @ tail"
    by (simp add: r update_append)
  then show ?thesis
    using second_pass [OF wr tl pw] by (simp add: r)
qed

lemma map_of_set_default: "k \<noteq> k' \<Longrightarrow> map_of (set_default k x d) k' = map_of d k'"
  by (simp add: set_default_def dict_set_def AList.update_conv')

lemma name_resolve_password: "map_of (resolve_password rp d) ''name'' = map_of d ''name''"
  by (simp add: resolve_password_def dict_pop_def AList.delete_conv')

lemma name_resolve_replicaset: "map_of (resolve_replicaset d) ''name'' = map_of d ''name''"
  by (simp add: resolve_replicaset_def dict_set_def dict_pop_def AList.update_conv' AList.delete_conv')

lemma name_resolve_defaults: "map_of (resolve_defaults d) ''name'' = map_of d ''name''"
  by (simp add: resolve_defaults_def map_of_set_default)

lemma name_resolve_name:
  "map_of (resolve_name d) ''name'' = Some (dict_get d ''db'' (PStr ''test''))"
  by (auto simp: resolve_name_def dict_set_def dict_get_def dict_in_def AList.update_conv')

lemma first_pass_name:
  "map_of (resolve_password rp (resolve_replicaset (resolve_defaults (resolve_name d)))) ''name'' =
     Some (dict_get d ''db'' (PStr ''test''))"
  by (simp only: name_resolve_password name_resolve_replicaset name_resolve_defaults
      name_resolve_name)

subsection \<open>Prefixed keys and defaults\<close>

lemma example_resolve:
  "resolve_settings
     (PDict [(''MONGODB_HOST'', PStr ''h''), (''MONGODB_PORT'', PInt 1234),
             (''MONGODB_DB'', PStr ''x'')]) (Some ''MONGODB_'') True =
   PDict [(''host'', PStr ''h''), (''port'', PInt 1234), (''name'', PStr ''x''),
          (''alias'', PStr DEFAULT_CONNECTION_NAME), (''username'', PNone),
          (''read_preference'', PReadPreference PRIMARY)]"
  "resolve_settings
     (PDict [(''MONGODB_HOST'', PStr ''h''), (''MONGODB_PORT'', PInt 1234),
             (''MONGODB_DB'', PStr ''x'')]) (Some ''MONGODB_'') False =
   PDict [(''host'', PStr ''h''), (''port'', PInt 1234), (''name'', PStr ''x''),
          (''alias'', PStr DEFAULT_CONNECTION_NAME), (''username'', PNone),
          (''read_preference'', PReadPreference PRIMARY)]"
  by code_simp+

lemma example_fetch:
  "fetch_connection_settings
     [(''MONGODB_HOST'', PStr ''h''), (''MONGODB_PORT'', PInt 1234),
      (''MONGODB_DB'', PStr ''x'')] remove_pass =
   resolve_settings
     (PDict [(''MONGODB_HOST'', PStr ''h''), (''MONGODB_PORT'', PInt 1234),
             (''MONGODB_DB'', PStr ''x'')]) (Some ''MONGODB_'') remove_pass"
  by (simp add: fetch_connection_settings_def dict_in_def)

text \<open>
  Claim C8. Resolving \<^verbatim>\<open>{"MONGODB_HOST": "h", "MONGODB_PORT": 1234, "MONGODB_DB": "x"}\<close>
  with the prefix \<^verbatim>\<open>MONGODB_\<close>, directly or through \<^verbatim>\<open>fetch_connection_settings\<close>, gives
  the descriptor with host \<^verbatim>\<open>h\<close>, port 1234, name \<^verbatim>\<open>x\<close>, the default alias, a
  \<^verbatim>\<open>username\<close> of \<^verbatim>\<open>None\<close> and read preference PRIMARY, for either value of
  \<^verbatim>\<open>remove_pass\<close>; it has no \<^verbatim>\<open>db\<close> key. In general the keys kept by the loop are
  exactly the prefix-carrying keys with the prefix dropped and the rest lower-cased, and
  every entry kept is the entry of such a key.
\<close>

theorem resolve_settings_prefixed:
  "resolve_settings
     (PDict [(''MONGODB_HOST'', PStr ''h''), (''MONGODB_PORT'', PInt 1234),
             (''MONGODB_DB'', PStr ''x'')]) (Some ''MONGODB_'') remove_pass =
   PDict [(''host'', PStr ''h''), (''port'', PInt 1234), (''name'', PStr ''x''),
          (''alias'', PStr DEFAULT_CONNECTION_NAME), (''username'', PNone),
          (''read_preference'', PReadPreference PRIMARY)] \<and>
   fetch_connection_settings
     [(''MONGODB_HOST'', PStr ''h''), (''MONGODB_PORT'', PInt 1234),
      (''MONGODB_DB'', PStr ''x'')] remove_pass =
   PDict [(''host'', PStr ''h''), (''port'', PInt 1234), (''name'', PStr ''x''),
          (''alias'', PStr DEFAULT_CONNECTION_NAME), (''username'', PNone),
          (''read_preference'', PReadPreference PRIMARY)] \<and>
   \<not> dict_in ''db''
      [(''host'', PStr ''h''), (''port'', PInt 1234), (''name'', PStr ''x''),
       (''alias'', PStr DEFAULT_CONNECTION_NAME), (''username'', PNone),
       (''read_preference'', PReadPreference PRIMARY)] \<and>
   fst ` set (resolve_items (Some p) items) =
     (\<lambda>k. lower (drop (length p) k)) ` {k \<in> fst ` set items. startswith k p} \<and>
   set (resolve_items (Some p) items) \<subseteq>
     (\<lambda>kv. (lower (drop (length p) (fst kv)), snd kv)) `
       {kv \<in> set items. startswith (fst kv) p}"
proof -
  have ex: "resolve_settings
     (PDict [(''MONGODB_HOST'', PStr ''h''), (''MONGODB_PORT'', PInt 1234),
             (''MONGODB_DB'', PStr ''x'')]) (Some ''MONGODB_'') remove_pass =
   PDict [(''host'', PStr ''h''), (''port'', PInt 1234), (''name'', PStr ''x''),
          (''alias'', PStr DEFAULT_CONNECTION_NAME), (''username'', PNone),
          (''read_preference'', PReadPreference PRIMARY)]"
    using example_resolve by (cases remove_pass) simp_all
  have nodb: "\<not> dict_in ''db''
      [(''host'', PStr ''h''), (''port'', PInt 1234), (''name'', PStr ''x''),
       (''alias'', PStr DEFAULT_CONNECTION_NAME), (''username'', PNone),
       (''read_preference'', PReadPreference PRIMARY)]"
    by (simp add: dict_in_def)
  have keys: "fst ` set (resolve_items (Some p) items) =
     (\<lambda>k. lower (drop (length p) k)) ` {k \<in> fst ` set items. startswith k p}"
    by (simp add: resolve_items_def keys_resolve_fold)
  have entries: "set (resolve_items (Some p) items) \<subseteq>
     (\<lambda>kv. (lower (drop (length p) (fst kv)), snd kv)) `
       {kv \<in> set items. startswith (fst kv) p}"
    using entries_resolve_fold [of p items "[]"] by (simp add: resolve_items_def)
  show ?thesis
    using ex nodb keys entries by (simp only: example_fetch simp_thms)
qed

lemma resolve_nothing:
  "resolve_password remove_pass (resolve_replicaset (resolve_defaults (resolve_name []))) =
     [(''name'', PStr ''test''), (''alias'', PStr DEFAULT_CONNECTION_NAME),
      (''host'', PStr ''localhost''), (''port'', PInt 27017), (''username'', PNone),
      (''read_preference'', PReadPreference PRIMARY)]"
  by (simp add: resolve_password_def resolve_replicaset_def resolve_defaults_def resolve_name_def
      set_default_def dict_set_def dict_pop_def dict_get_def dict_in_def)

text \<open>
  Claim C9, as amended. For every non-empty mapping none of whose keys starts with the
  prefix, resolution with that prefix gives exactly the injected defaults: name
  \<^verbatim>\<open>test\<close>, the default alias, host \<^verbatim>\<open>localhost\<close>, port 27017, a \<^verbatim>\<open>username\<close> of
  \<^verbatim>\<open>None\<close> and read preference PRIMARY.
\<close>

theorem resolve_settings_no_prefixed_keys:
  assumes "items \<noteq> []" and "\<forall>k \<in> fst ` set items. \<not> startswith k p"
  shows "resolve_settings (PDict items) (Some p) remove_pass =
     PDict [(''name'', PStr ''test''), (''alias'', PStr DEFAULT_CONNECTION_NAME),
            (''host'', PStr ''localhost''), (''port'', PInt 27017), (''username'', PNone),
            (''read_preference'', PReadPreference PRIMARY)]"
proof -
  obtain kv where "kv \<in> set items"
    using assms(1) by (cases items) auto
  then have "\<not> startswith (fst kv) p"
    using assms(2) by auto
  then have p: "p \<noteq> []"
    by (auto simp: startswith_def)
  have "resolve_items (Some p) items = []"
    using no_prefix_fold [OF assms(2) p] by (simp add: resolve_items_def)
  then show ?thesis
    using assms(1) by (simp add: resolve_settings_def resolve_nothing)
qed

theorem resolve_settings_no_prefixed_keys_witness:
  "[(''DEBUG'', PBool True)] \<noteq> [] \<and>
   \<not> startswith ''DEBUG'' ''MONGODB_'' \<and>
   resolve_settings (PDict [(''DEBUG'', PBool True)]) (Some ''MONGODB_'') True =
     PDict [(''name'', PStr ''test''), (''alias'', PStr DEFAULT_CONNECTION_NAME),
            (''host'', PStr ''localhost''), (''port'', PInt 27017), (''username'', PNone),
            (''read_preference'', PReadPreference PRIMARY)]"
  using resolve_settings_no_prefixed_keys [of "[(''DEBUG'', PBool True)]" "''MONGODB_''" True]
  by (simp add: startswith_def)

text \<open>
  Claim C9 as stated fails on the empty mapping: no key of it starts with the prefix, and
  the guard at the head of \<^verbatim>\<open>_resolve_settings\<close> returns it unchanged, without any default.
\<close>

theorem resolve_settings_empty_mapping:
  "resolve_settings (PDict []) (Some ''MONGODB_'') True = PDict [] \<and>
   resolve_settings (PDict []) (Some ''MONGODB_'') True \<noteq>
     PDict [(''name'', PStr ''test''), (''alias'', PStr DEFAULT_CONNECTION_NAME),
            (''host'', PStr ''localhost''), (''port'', PInt 27017), (''username'', PNone),
            (''read_preference'', PReadPreference PRIMARY)]"
  by (simp add: resolve_settings_def)

subsection \<open>Resolving twice\<close>

lemma resolve_settings_pass_through:
  "\<not> truthy s \<or> \<not> isinstance_dict s \<Longrightarrow> resolve_settings s sp rp = s"
  by (simp add: resolve_settings_def)

lemma resolve_settings_dict:
  "items \<noteq> [] \<Longrightarrow> resolve_settings (PDict items) sp rp =
     PDict (resolve_password rp (resolve_replicaset (resolve_defaults (resolve_name
              (resolve_items sp items)))))"
  by (simp add: resolve_settings_def)

lemma first_pass_nonempty:
  "resolve_password rp (resolve_replicaset (resolve_defaults (resolve_name d))) \<noteq> []"
  using first_pass_name [of rp d] by auto

text \<open>
  Claim C10, as amended. A second resolution without prefix finds no \<^verbatim>\<open>db\<close> key and
  stores \<^verbatim>\<open>test\<close> under \<^verbatim>\<open>name\<close>; it changes nothing else, in particular not a
  passed-through input and not the \<^verbatim>\<open>replicaSet\<close> entry. Hence resolving twice equals
  resolving once exactly when the input is not a non-empty mapping, or no key of it
  lower-cases to \<^verbatim>\<open>db\<close>, or the value stored last under such a key is \<^verbatim>\<open>test\<close>.
\<close>

theorem resolve_settings_twice:
  "resolve_settings (resolve_settings s None remove_pass) None remove_pass =
     (case resolve_settings s None remove_pass of
        PDict (kv # r) \<Rightarrow> PDict (dict_set ''name'' (PStr ''test'') (kv # r))
      | v \<Rightarrow> v) \<and>
   (resolve_settings (resolve_settings s None remove_pass) None remove_pass =
      resolve_settings s None remove_pass) =
     (case s of
        PDict (kv # items) \<Rightarrow>
          dict_get (resolve_items None (kv # items)) ''db'' (PStr ''test'') = PStr ''test''
      | v \<Rightarrow> True)"
proof (cases "truthy s \<and> isinstance_dict s")
  case False
  then show ?thesis
    by (cases s) (simp_all add: resolve_settings_def split: list.splits)
next
  case True
  then obtain kv items where s: "s = PDict (kv # items)"
    by (cases s) (auto simp: neq_Nil_conv)
  let ?r = "resolve_password remove_pass (resolve_replicaset (resolve_defaults (resolve_name
              (resolve_items None (kv # items)))))"
  have first: "resolve_settings s None remove_pass = PDict ?r"
    by (simp add: s resolve_settings_dict)
  have ne: "?r \<noteq> []"
    by (rule first_pass_nonempty)
  have second: "resolve_settings (PDict ?r) None remove_pass =
      PDict (AList.update ''name'' (PStr ''test'') ?r)"
    using ne by (simp add: resolve_settings_dict resolve_twice)
  have same: "(AList.update ''name'' (PStr ''test'') ?r = ?r) =
      (dict_get (resolve_items None (kv # items)) ''db'' (PStr ''test'') = PStr ''test'')"
    by (simp only: update_same_iff first_pass_name option.inject)
  obtain x xs where r: "?r = x # xs"
    using ne by (cases ?r) auto
  show ?thesis
    unfolding first second using same
    by (simp add: s r dict_set_def)
qed

theorem resolve_settings_twice_witness:
  "resolve_settings (resolve_settings (PDict [(''HOST'', PStr ''h''), (''replicaSet'', PStr ''rs0'')])
      None True) None True =
     resolve_settings (PDict [(''HOST'', PStr ''h''), (''replicaSet'', PStr ''rs0'')]) None True
   \<and> resolve_settings (PDict [(''HOST'', PStr ''h''), (''replicaSet'', PStr ''rs0'')]) None True =
     PDict [(''host'', PStr ''h''), (''name'', PStr ''test''),
            (''alias'', PStr DEFAULT_CONNECTION_NAME), (''port'', PInt 27017),
            (''username'', PNone), (''read_preference'', PReadPreference PRIMARY),
            (''replicaSet'', PStr ''rs0'')]"
proof -
  have "dict_get (resolve_items None [(''HOST'', PStr ''h''), (''replicaSet'', PStr ''rs0'')])
          ''db'' (PStr ''test'') = PStr ''test''"
    by code_simp
  moreover have "resolve_settings (PDict [(''HOST'', PStr ''h''), (''replicaSet'', PStr ''rs0'')]) None True =
     PDict [(''host'', PStr ''h''), (''name'', PStr ''test''),
            (''alias'', PStr DEFAULT_CONNECTION_NAME), (''port'', PInt 27017),
            (''username'', PNone), (''read_preference'', PReadPreference PRIMARY),
            (''replicaSet'', PStr ''rs0'')]"
    by code_simp
  ultimately show ?thesis
    using resolve_settings_twice
      [of "PDict [(''HOST'', PStr ''h''), (''replicaSet'', PStr ''rs0'')]" True]
    by (simp add: dict_set_def)
qed

text \<open>
  Claim C10 as stated fails on \<^verbatim>\<open>{"db": "x"}\<close>: the first resolution names the database
  \<^verbatim>\<open>x\<close>, the second one \<^verbatim>\<open>test\<close>.
\<close>

theorem resolve_settings_not_idempotent:
  "resolve_settings (resolve_settings (PDict [(''db'', PStr ''x'')]) None True) None True \<noteq>
     resolve_settings (PDict [(''db'', PStr ''x'')]) None True \<and>
   dict_get (case resolve_settings (PDict [(''db'', PStr ''x'')]) None True of PDict r \<Rightarrow> r | _ \<Rightarrow> [])
     ''name'' PNone = PStr ''x'' \<and>
   dict_get (case resolve_settings (resolve_settings (PDict [(''db'', PStr ''x'')]) None True) None True
             of PDict r \<Rightarrow> r | _ \<Rightarrow> [])
     ''name'' PNone = PStr ''test''"
  by code_simp

section \<open>Properties of the registry\<close>

subsection \<open>What each operation leaves untouched\<close>

lemma same_registry_frame: "same_registry st st' \<Longrightarrow> frame A st st'"
  by (simp add: same_registry_def frame_def)

lemma subset_chain: "X2 \<subseteq> B \<union> X1 \<Longrightarrow> X1 \<subseteq> A \<union> X0 \<Longrightarrow> X2 \<subseteq> (A \<union> B) \<union> X0"
  by blast

lemma frame_trans: "frame A st st1 \<Longrightarrow> frame B st1 st2 \<Longrightarrow> frame (A \<union> B) st st2"
  unfolding frame_def using subset_chain by metis

lemma subset_widen: "X1 \<subseteq> A \<union> X0 \<Longrightarrow> A \<subseteq> B \<Longrightarrow> X1 \<subseteq> B \<union> X0"
  by blast

lemma frame_mono: "frame A st st' \<Longrightarrow> A \<subseteq> B \<Longrightarrow> frame B st st'"
  unfolding frame_def using subset_widen by metis

lemma log_fields [simp]:
  "connection_settings (log ev st) = connection_settings st"
  "connections (log ev st) = connections st"
  "tmpdir (log ev st) = tmpdir st"
  "process (log ev st) = process st"
  "app_instance (log ev st) = app_instance st"
  "trace (log ev st) = trace st @ [ev]"
  by (simp_all add: log_def)

lemma get_app_config_state: "get_app_config env key st = (r, st') \<Longrightarrow> st' = st"
  by (auto simp: get_app_config_def split: app_inst.splits pyval.splits sum.splits)

lemma wait_for_instance_registry:
  "wait_for_instance env port n st = (r, st') \<Longrightarrow> same_registry st st'"
proof (induction n arbitrary: st)
  case 0
  then show ?case by (auto simp: same_registry_def)
next
  case (Suc n)
  show ?case
  proof (cases "pymongo_MongoClient env (trace (log (Ev_sleep 100) st)) port")
    case (Inr c)
    then show ?thesis using Suc.prems by (auto simp: same_registry_def)
  next
    case (Inl e)
    show ?thesis
    proof (cases e)
      case (ConnectionFailure m)
      then have "wait_for_instance env port n (log (Ev_mongo_client port) (log (Ev_sleep 100) st)) = (r, st')"
        using Suc.prems Inl by simp
      then have "same_registry (log (Ev_mongo_client port) (log (Ev_sleep 100) st)) st'"
        by (rule Suc.IH)
      then show ?thesis by (simp add: same_registry_def)
    qed (use Suc.prems Inl in \<open>auto simp: same_registry_def\<close>)
  qed
qed

lemma sys_exec_registry: "sys_exec env cmd st = (r, st') \<Longrightarrow> same_registry st st'"
proof -
  assume a: "sys_exec env cmd st = (r, st')"
  have "snd (sys_exec env cmd st) = log (Ev_exec cmd) st"
    by (simp add: sys_exec_def split: sum.splits prod.splits)
  then have "st' = log (Ev_exec cmd) st"
    using a by simp
  then show ?thesis
    by (simp add: same_registry_def)
qed

lemma prepare_test_instance_registry:
  assumes "prepare_test_instance env port st = (r, st')"
  shows "same_registry st st'"
proof -
  obtain r1 st1 where e: "sys_exec env ''mongod --version'' st = (r1, st1)"
    by (cases "sys_exec env ''mongod --version'' st")
  have s1: "same_registry st st1"
    using e by (rule sys_exec_registry)
  have "st' = st1 \<or> st' = log Ev_mkdtemp st1 \<or>
        (\<exists>v. st' = (log Ev_mkdtemp st1)\<lparr>tmpdir := v\<rparr>)"
    using assms unfolding prepare_test_instance_def e
    by (simp split: sum.splits if_splits) blast
  then show ?thesis
    using s1 by (auto simp: same_registry_def)
qed

lemma keys_dict_set: "fst ` set (dict_set k v d) = insert k (fst ` set d)"
  by (simp add: dict_set_def AList.dom_update)

lemma keys_dict_pop: "fst ` set (dict_pop k d) = fst ` set d - {k}"
  by (simp add: dict_pop_def keys_delete)

lemma frame_same: "same_registry st st1 \<Longrightarrow> frame A st st1"
  by (rule same_registry_frame)

lemma frame_set_connection:
  "same_registry st st1 \<Longrightarrow>
   frame {k} st (st1\<lparr>connections := dict_set k c (connections st1)\<rparr>)"
  by (simp add: same_registry_def frame_def keys_dict_set)

lemma register_test_connection_frame:
  assumes "register_test_connection env port db_alias preserved st = (r, st')"
  shows "frame {db_alias} st st'"
proof -
  obtain r1 st1 where p: "prepare_test_instance env port st = (r1, st1)"
    by (cases "prepare_test_instance env port st")
  have f1: "same_registry st st1"
    using p by (rule prepare_test_instance_registry)
  show ?thesis
  proof (cases r1)
    case (Inl e)
    then have "st' = st1"
      using assms p by (simp add: register_test_connection_def)
    then show ?thesis using f1 by (simp add: frame_same)
  next
    case (Inr po)
    show ?thesis
    proof (cases po)
      case None
      then have "st' = st1"
        using assms p Inr by (simp add: register_test_connection_def)
      then show ?thesis using f1 by (simp add: frame_same)
    next
      case (Some port')
      note eq = p Inr Some
      show ?thesis
      proof (cases "hashable db_alias")
        case False
        then have "st' = st1"
          using assms eq by (simp add: register_test_connection_def)
        then show ?thesis using f1 by (simp add: frame_same)
      next
        case h: True
        show ?thesis
        proof (cases "map_of (connections st1) db_alias")
          case (Some conn)
          then have "st' = st1"
            using assms eq h by (simp add: register_test_connection_def)
          then show ?thesis using f1 by (simp add: frame_same)
        next
          case None
          show ?thesis
          proof (cases "subprocess_Popen env (trace st1) port' (tmpdir st1)")
            case (Inl e)
            then have "st' = log (Ev_popen port' (tmpdir st1)) st1"
              using assms eq h None by (simp add: register_test_connection_def)
            then show ?thesis
              using f1 by (auto simp: same_registry_def frame_def)
          next
            case pr: (Inr pp)
            let ?s = "log (Ev_atexit_register preserved)
                        ((log (Ev_popen port' (tmpdir st1)) st1)\<lparr>process := Some pp\<rparr>)"
            obtain r2 st2 where w: "wait_for_instance env port' 3 ?s = (r2, st2)"
              by (cases "wait_for_instance env port' 3 ?s")
            have "same_registry ?s st2"
              using w by (rule wait_for_instance_registry)
            then have f2: "same_registry st st2"
              using f1 by (simp add: same_registry_def)
            show ?thesis
            proof (cases r2)
              case (Inl e)
              then have "st' = st2"
                using assms eq h None pr w by (simp add: register_test_connection_def)
              then show ?thesis using f2 by (simp add: frame_same)
            next
              case (Inr conn)
              then have "st' = st2\<lparr>connections := dict_set db_alias conn (connections st2)\<rparr>"
                using assms eq h None pr w by (simp add: register_test_connection_def)
              then show ?thesis using f2 by (simp add: frame_set_connection)
            qed
          qed
        qed
      qed
    qed
  qed
qed

lemma connection_get_db_registry:
  "connection_get_db env alias st = (r, st') \<Longrightarrow> same_registry st st'"
proof -
  assume a: "connection_get_db env alias st = (r, st')"
  have "snd (connection_get_db env alias st) = log (Ev_get_db alias) st"
    by (simp add: connection_get_db_def split: sum.splits)
  then have "st' = log (Ev_get_db alias) st"
    using a by simp
  then show ?thesis by (simp add: same_registry_def)
qed

lemma frame_after_set:
  "frame {k} (st1\<lparr>connections := dict_set k c (connections st)\<rparr>) st' \<Longrightarrow>
   connection_settings st1 = connection_settings st \<Longrightarrow> frame {k} st st'"
  by (auto simp: frame_def keys_dict_set)

lemma sharing_loop_frame:
  "sharing_loop env alias cc cs connection items st = (r, st') \<Longrightarrow> frame {alias} st st'"
proof (induction items arbitrary: st connection)
  case Nil
  then show ?case by (auto simp: frame_def)
next
  case (Cons item items)
  obtain db_alias settings where item: "item = (db_alias, settings)"
    by (cases item)
  show ?case
  proof (cases "map_of (connections st) db_alias")
    case (Some c)
    then have "st' = st"
      using Cons.prems item by simp
    then show ?thesis by (auto simp: frame_def)
  next
    case None
    show ?thesis
    proof (cases connection)
      case (Some c)
      have "sharing_loop env alias cc cs connection items
              (st\<lparr>connections := dict_set alias c (connections st)\<rparr>) = (r, st')"
        using Cons.prems item None Some by simp
      then have "frame {alias} (st\<lparr>connections := dict_set alias c (connections st)\<rparr>) st'"
        by (rule Cons.IH)
      then show ?thesis
        by (rule frame_after_set) simp
    next
      case cn: None
      show ?thesis
      proof (cases cc)
        case Unbound
        then have "st' = st"
          using Cons.prems item None cn by simp
        then show ?thesis by (auto simp: frame_def)
      next
        case Class_None
        then have "sharing_loop env alias cc cs connection items st = (r, st')"
          using Cons.prems item None cn by simp
        then show ?thesis by (rule Cons.IH)
      next
        case Mongomock_MongoClient
        show ?thesis
        proof (cases "mongomock_MongoClient env (trace st) cs")
          case (Inl e)
          then have "st' = log (Ev_mock_client cs) st"
            using Cons.prems item None cn Mongomock_MongoClient by simp
          then show ?thesis by (auto simp: frame_def)
        next
          case (Inr c)
          then have "sharing_loop env alias cc cs connection items
                ((log (Ev_mock_client cs) st)\<lparr>connections := dict_set alias c (connections st)\<rparr>) =
              (r, st')"
            using Cons.prems item None cn Mongomock_MongoClient by simp
          then have "frame {alias}
              ((log (Ev_mock_client cs) st)\<lparr>connections := dict_set alias c (connections st)\<rparr>) st'"
            by (rule Cons.IH)
          then show ?thesis
            by (rule frame_after_set) simp
        qed
      qed
    qed
  qed
qed

lemma frame_same_after: "frame A st st1 \<Longrightarrow> same_registry st1 st2 \<Longrightarrow> frame A st st2"
  by (simp add: frame_def same_registry_def)

lemma share_connections_frame:
  assumes "share_connections env alias cc cs st = (r, st')"
  shows "frame {alias} st st'"
proof -
  obtain r1 st1 where l: "sharing_loop env alias cc cs None (connection_settings st) st = (r1, st1)"
    by (cases "sharing_loop env alias cc cs None (connection_settings st) st")
  have f: "frame {alias} st st1"
    using l by (rule sharing_loop_frame)
  show ?thesis
  proof (cases r1)
    case (Inl e)
    then have "st' = st1"
      using assms l by (simp add: share_connections_def)
    then show ?thesis using f by simp
  next
    case (Inr c)
    then have "connection_get_db env alias st1 = (r, st')"
      using assms l by (simp add: share_connections_def)
    then have "same_registry st1 st'"
      by (rule connection_get_db_registry)
    then show ?thesis
      using f by (rule frame_same_after [rotated])
  qed
qed

lemma connect_default_frame:
  assumes "connect_default env alias cc db_name cs st = (r, st')"
  shows "frame {alias} st st'"
proof (cases "mongoengine_connect env (trace st) db_name cs")
  case (Inl e)
  then have "st' = log (Ev_connect db_name cs) st"
    using assms by (simp add: connect_default_def)
  then show ?thesis by (auto simp: frame_def)
next
  case (Inr c)
  then have "share_connections env alias cc cs
      ((log (Ev_connect db_name cs) st)\<lparr>connections := dict_set alias c (connections st)\<rparr>) =
      (r, st')"
    using assms by (simp add: connect_default_def)
  then have "frame {alias}
      ((log (Ev_connect db_name cs) st)\<lparr>connections := dict_set alias c (connections st)\<rparr>) st'"
    by (rule share_connections_frame)
  then show ?thesis
    by (rule frame_after_set) simp
qed

lemma establish_frame:
  assumes "establish env alias is_test temp_db preserved conn_host db_name cs st = (r, st')"
    and "map_of cs ''alias'' = None \<or> map_of cs ''alias'' = Some alias"
  shows "frame {alias} st st'"
proof (cases "truthy is_test")
  case False
  then show ?thesis
    using assms(1) by (simp add: establish_def connect_default_frame)
next
  case t: True
  show ?thesis
  proof (cases "truthy temp_db")
    case True
    show ?thesis
    proof (cases "map_of cs ''alias''")
      case None
      then have "st' = st"
        using assms(1) t True by (simp add: establish_def)
      then show ?thesis by (auto simp: frame_def)
    next
      case (Some db_alias)
      then have a: "db_alias = alias"
        using assms(2) by simp
      show ?thesis
      proof (cases "map_of cs ''port''")
        case None
        then have "st' = st"
          using assms(1) t True Some by (simp add: establish_def)
        then show ?thesis by (auto simp: frame_def)
      next
        case p: (Some port)
        then have "register_test_connection env port alias preserved st = (r, st')"
          using assms(1) t True Some a by (simp add: establish_def)
        then show ?thesis by (rule register_test_connection_frame)
      qed
    qed
  next
    case False
    show ?thesis
    proof (cases "py_startswith conn_host ''mongomock://''")
      case (Inl e)
      then have "st' = st"
        using assms(1) t False by (simp add: establish_def)
      then show ?thesis by (auto simp: frame_def)
    next
      case (Inr mock)
      show ?thesis
      proof (cases "mock \<and> tuple_less (mongoengine_VERSION env) [0, 10, 6]")
        case nm: False
        then have "connect_default env alias Class_None db_name cs st = (r, st')"
          using assms(1) t False Inr by (auto simp: establish_def)
        then show ?thesis by (rule connect_default_frame)
      next
        case m: True
        show ?thesis
        proof (cases "mongomock_importable env")
          case False
          then have "st' = st"
            using assms(1) t \<open>\<not> truthy temp_db\<close> Inr m by (simp add: establish_def)
          then show ?thesis by (auto simp: frame_def)
        next
          case True
          then have "share_connections env alias Mongomock_MongoClient
                 (dict_set ''host''
                    (PStr (''mongodb://'' @ drop (length ''mongomock://'') (py_str env conn_host)))
                    cs) st = (r, st')"
            using assms(1) t \<open>\<not> truthy temp_db\<close> Inr m by (simp add: establish_def)
          then show ?thesis by (rule share_connections_frame)
        qed
      qed
    qed
  qed
qed

lemma get_app_config_result:
  "\<exists>x. get_app_config env key st = (x, st)"
  by (cases "get_app_config env key st") (auto dest: get_app_config_state)

lemma get_connection_body_cases:
  assumes "get_connection_body env alias st = (r, st')"
  shows "same_registry st st' \<or>
         (\<exists>is_test temp_db preserved conn_host db_name d.
            map_of (connection_settings st) alias = Some d \<and>
            establish env alias is_test temp_db preserved conn_host db_name
              (dict_pop ''name'' d) st = (r, st'))"
proof (cases "hashable alias \<and> \<not> dict_in alias (connections st) \<and>
              dict_in alias (connection_settings st)")
  case False
  then consider "\<not> hashable alias" | "hashable alias" "dict_in alias (connections st)"
    | "hashable alias" "\<not> dict_in alias (connections st)" "\<not> dict_in alias (connection_settings st)"
    by blast
  then have "same_registry st st'"
  proof cases
    case 1
    then have "st' = st" using assms by (simp add: get_connection_body_def)
    then show ?thesis by (simp add: same_registry_def)
  next
    case 2
    then have "connection_get_db env alias st = (r, st')"
      using assms by (simp add: get_connection_body_def)
    then show ?thesis by (rule connection_get_db_registry)
  next
    case 3
    then have "st' = st" using assms by (simp add: get_connection_body_def)
    then show ?thesis by (simp add: same_registry_def)
  qed
  then show ?thesis ..
next
  case True
  then obtain d where d: "map_of (connection_settings st) alias = Some d"
    by (auto simp: dict_in_def)
  then have get: "dict_get (connection_settings st) alias [] = d"
    by (simp add: dict_get_def)
  show ?thesis
  proof (cases "map_of d ''host''")
    case None
    then have "st' = st" using assms True get by (simp add: get_connection_body_def)
    then show ?thesis by (simp add: same_registry_def)
  next
    case (Some conn_host)
    note host = this
    show ?thesis
    proof (cases "map_of d ''name''")
      case None
      then have "st' = st" using assms True get host by (simp add: get_connection_body_def)
      then show ?thesis by (simp add: same_registry_def)
    next
      case (Some db_name)
      obtain x1 where g1: "get_app_config env ''TESTING'' st = (x1, st)"
        using get_app_config_result by blast
      obtain x2 where g2: "get_app_config env ''TEMP_DB'' st = (x2, st)"
        using get_app_config_result by blast
      obtain x3 where g3: "get_app_config env ''PRESERVE_TEMP_DB'' st = (x3, st)"
        using get_app_config_result by blast
      have body: "bind (get_app_config env ''TESTING'') (\<lambda>is_test.
                     bind (get_app_config env ''TEMP_DB'') (\<lambda>temp_db.
                     bind (get_app_config env ''PRESERVE_TEMP_DB'') (\<lambda>preserved st'.
                       case validate_settings is_test temp_db preserved conn_host of
                         Inl e \<Rightarrow> (Inl e, st')
                       | Inr u \<Rightarrow>
                           establish env alias is_test temp_db preserved conn_host db_name
                             (dict_pop ''name'' (dict_get (connection_settings st) alias []))
                             st'))) st = (r, st')"
        using True host Some assms by (simp add: get_connection_body_def get [symmetric])
      show ?thesis
      proof (cases x1)
        case (Inl e)
        then have "st' = st" using body g1 by (simp add: bind_def)
        then show ?thesis by (simp add: same_registry_def)
      next
        case i1: (Inr is_test)
        show ?thesis
        proof (cases x2)
          case (Inl e)
          then have "st' = st" using body g1 i1 g2 by (simp add: bind_def)
          then show ?thesis by (simp add: same_registry_def)
        next
          case i2: (Inr temp_db)
          show ?thesis
          proof (cases x3)
            case (Inl e)
            then have "st' = st" using body g1 i1 g2 i2 g3 by (simp add: bind_def)
            then show ?thesis by (simp add: same_registry_def)
          next
            case i3: (Inr preserved)
            show ?thesis
            proof (cases "validate_settings is_test temp_db preserved conn_host")
              case (Inl e)
              then have "st' = st" using body g1 i1 g2 i2 g3 i3 by (simp add: bind_def)
              then show ?thesis by (simp add: same_registry_def)
            next
              case (Inr u)
              then have "establish env alias is_test temp_db preserved conn_host db_name
                             (dict_pop ''name'' d) st = (r, st')"
                using body g1 i1 g2 i2 g3 i3 by (simp add: bind_def get)
              then show ?thesis using d by blast
            qed
          qed
        qed
      qed
    qed
  qed
qed

lemma registry_inv_same: "registry_inv st \<Longrightarrow> same_registry st st' \<Longrightarrow> registry_inv st'"
  by (simp add: registry_inv_def same_registry_def)

lemma subset_close: "X' \<subseteq> {k} \<union> X \<Longrightarrow> X \<subseteq> S \<Longrightarrow> k \<in> S \<Longrightarrow> X' \<subseteq> S"
  by blast

lemma registry_inv_frame:
  assumes "registry_inv st" and "frame {k} st st'" and "k \<in> fst ` set (connection_settings st)"
  shows "registry_inv st'"
proof -
  have s: "connection_settings st' = connection_settings st"
    using assms(2) by (simp add: frame_def)
  have "fst ` set (connections st') \<subseteq> {k} \<union> fst ` set (connections st)"
    using assms(2) by (simp add: frame_def)
  moreover have "fst ` set (connections st) \<subseteq> fst ` set (connection_settings st)"
    using assms(1) by (simp add: registry_inv_def)
  ultimately have "fst ` set (connections st') \<subseteq> fst ` set (connection_settings st)"
    using assms(3) by (rule subset_close)
  then show ?thesis
    using assms(1) by (simp add: registry_inv_def s)
qed

lemma get_connection_body_inv:
  assumes "get_connection_body env alias st = (r, st')" and "registry_inv st"
  shows "registry_inv st'"
  using get_connection_body_cases [OF assms(1)]
proof
  assume "same_registry st st'"
  then show ?thesis using assms(2) by (rule registry_inv_same [rotated])
next
  assume "\<exists>is_test temp_db preserved conn_host db_name d.
            map_of (connection_settings st) alias = Some d \<and>
            establish env alias is_test temp_db preserved conn_host db_name
              (dict_pop ''name'' d) st = (r, st')"
  then obtain is_test temp_db preserved conn_host db_name d where
    d: "map_of (connection_settings st) alias = Some d" and
    e: "establish env alias is_test temp_db preserved conn_host db_name
              (dict_pop ''name'' d) st = (r, st')"
    by blast
  have mem: "(alias, d) \<in> set (connection_settings st)"
    using d by (rule map_of_SomeD)
  have "\<forall>kd \<in> set (connection_settings st).
          map_of (snd kd) ''alias'' = None \<or> map_of (snd kd) ''alias'' = Some (fst kd)"
    using assms(2) by (simp add: registry_inv_def)
  then have "map_of (snd (alias, d)) ''alias'' = None \<or>
             map_of (snd (alias, d)) ''alias'' = Some (fst (alias, d))"
    using mem by (rule bspec)
  then have "map_of d ''alias'' = None \<or> map_of d ''alias'' = Some alias"
    by simp
  then have "map_of (dict_pop ''name'' d) ''alias'' = None \<or>
             map_of (dict_pop ''name'' d) ''alias'' = Some alias"
    by (simp add: dict_pop_def)
  then have "frame {alias} st st'"
    using e by (rule establish_frame [rotated])
  moreover have "alias \<in> fst ` set (connection_settings st)"
    using mem by (rule image_eqI [rotated]) simp
  ultimately show ?thesis
    by (rule registry_inv_frame [OF assms(2)])
qed

lemma registry_inv_fields:
  "connection_settings st' = connection_settings st \<Longrightarrow> connections st' = connections st \<Longrightarrow>
   registry_inv st' = registry_inv st"
  by (simp add: registry_inv_def)

lemma registry_inv_pop:
  assumes "registry_inv st" and "connection_settings st' = connection_settings st"
    and "connections st' = dict_pop k (connections st)"
  shows "registry_inv st'"
proof -
  have "fst ` set (connections st) \<subseteq> fst ` set (connection_settings st)"
    using assms(1) by (simp add: registry_inv_def)
  then have "fst ` set (dict_pop k (connections st)) \<subseteq> fst ` set (connection_settings st)"
    unfolding keys_dict_pop by blast
  then show ?thesis
    using assms by (simp add: registry_inv_def)
qed

lemma close_connection_inv:
  assumes "close_connection env alias st = (r, st')" and "registry_inv st"
  shows "registry_inv st'"
proof -
  obtain r1 st1 where b: "get_connection_body env alias st = (r1, st1)"
    by (cases "get_connection_body env alias st")
  have i1: "registry_inv st1"
    using b assms(2) by (rule get_connection_body_inv)
  show ?thesis
  proof (cases r1)
    case (Inl e)
    then have "st' = st1" using assms(1) b by (simp add: close_connection_def)
    then show ?thesis using i1 by simp
  next
    case (Inr conn)
    show ?thesis
    proof (cases conn)
      case (Ret_database db)
      obtain n co where db: "db = Database n co" by (cases db)
      have "connection_settings st' = connection_settings st1 \<and>
            connections st' = dict_pop alias (connections st1)"
      proof (cases co)
        case None
        then have "st' = (log (Ev_close_database db) st1)
                           \<lparr>connections := dict_pop alias (connections st1)\<rparr>"
          using assms(1) b Inr Ret_database db by (simp add: close_connection_def)
        then show ?thesis by simp
      next
        case (Some client)
        then have "st' = (log (Ev_close_client client) st1)
                           \<lparr>connections := dict_pop alias (connections st1)\<rparr>"
          using assms(1) b Inr Ret_database db by (simp add: close_connection_def)
        then show ?thesis by simp
      qed
      then show ?thesis
        using i1 registry_inv_pop [of st1 "st'" "alias"] by simp
    next
      case (Ret_client c)
      then have "st' = st1" using assms(1) b Inr by (simp add: close_connection_def)
      then show ?thesis using i1 by simp
    next
      case Ret_none
      then have "st' = st1" using assms(1) b Inr by (simp add: close_connection_def)
      then show ?thesis using i1 by simp
    qed
  qed
qed

lemma stop_process_registry [simp]:
  "connection_settings (stop_process st) = connection_settings st"
  "connections (stop_process st) = connections st"
  by (simp_all add: stop_process_def split: option.splits)

lemma remove_temporary_snd:
  "connection_settings (snd (remove_temporary env st)) = connection_settings st \<and>
   connections (snd (remove_temporary env st)) = connections st"
  by (simp add: remove_temporary_def split: sum.splits option.splits)

lemma remove_temporary_registry:
  assumes "remove_temporary env st = (r, st')"
  shows "connection_settings st' = connection_settings st \<and> connections st' = connections st"
  using remove_temporary_snd [of env st] assms by simp

lemma disconnect_inv:
  assumes "disconnect env alias preserved st = (r, st')" and "registry_inv st"
  shows "registry_inv st'"
proof (cases "hashable alias")
  case False
  then have "st' = st" using assms(1) by (simp add: disconnect_def)
  then show ?thesis using assms(2) by simp
next
  case True
  obtain r1 st1 where c: "(if dict_in alias (connections st) then close_connection env alias st
                  else (Inr (), st)) = (r1, st1)"
    by (cases "if dict_in alias (connections st) then close_connection env alias st
                  else (Inr (), st)")
  have i1: "registry_inv st1"
  proof (cases "dict_in alias (connections st)")
    case True
    then have "close_connection env alias st = (r1, st1)" using c by simp
    then show ?thesis using assms(2) by (rule close_connection_inv)
  next
    case False
    then have "st1 = st" using c by simp
    then show ?thesis using assms(2) by simp
  qed
  have i2: "registry_inv (stop_process st1)"
    using i1 registry_inv_fields [of "stop_process st1" st1] by simp
  show ?thesis
  proof (cases r1)
    case (Inl e)
    then have "st' = st1" using assms(1) True c by (simp add: disconnect_def)
    then show ?thesis using i1 by simp
  next
    case (Inr u)
    show ?thesis
    proof (cases "\<not> truthy preserved \<and> truthy (tmpdir (stop_process st1))")
      case True
      then have "remove_temporary env (stop_process st1) = (r, st')"
        using assms(1) \<open>hashable alias\<close> c Inr by (simp add: disconnect_def)
      then have "connection_settings st' = connection_settings (stop_process st1) \<and>
                 connections st' = connections (stop_process st1)"
        by (rule remove_temporary_registry)
      then show ?thesis
        using i2 registry_inv_fields [of "st'" "stop_process st1"] by simp
    next
      case False
      then have "st' = stop_process st1"
        using assms(1) \<open>hashable alias\<close> c Inr by (auto simp: disconnect_def)
      then show ?thesis using i2 by simp
    qed
  qed
qed

lemma get_connection_inv:
  assumes "get_connection env alias reconnect st = (r, st')" and "registry_inv st"
  shows "registry_inv st'"
proof (cases reconnect)
  case False
  then have "get_connection_body env alias st = (r, st')"
    using assms(1) by (simp add: get_connection_def)
  then show ?thesis using assms(2) by (rule get_connection_body_inv)
next
  case True
  let ?p = "case map_of (connection_settings st) (PStr ''preserve_temp_db'') of
                   Some d \<Rightarrow> PDict d | None \<Rightarrow> PBool False"
  obtain r1 st1 where d: "disconnect env alias ?p st = (r1, st1)"
    by (cases "disconnect env alias ?p st")
  have i1: "registry_inv st1"
    using d assms(2) by (rule disconnect_inv)
  show ?thesis
  proof (cases r1)
    case (Inl e)
    then have "st' = st1" using assms(1) True d by (simp add: get_connection_def)
    then show ?thesis using i1 by simp
  next
    case (Inr u)
    then have "get_connection_body env alias st1 = (r, st')"
      using assms(1) True d by (simp add: get_connection_def)
    then show ?thesis using i1 by (rule get_connection_body_inv)
  qed
qed

lemma registry_inv_register:
  assumes "registry_inv st" and "map_of d ''alias'' = None \<or> map_of d ''alias'' = Some k"
    and "connection_settings st' = dict_set k d (connection_settings st)"
    and "connections st' = connections st"
  shows "registry_inv st'"
proof -
  have "fst ` set (connections st) \<subseteq> fst ` set (connection_settings st)"
    using assms(1) by (simp add: registry_inv_def)
  then have a: "fst ` set (connections st') \<subseteq> fst ` set (connection_settings st')"
    unfolding assms(3) assms(4) keys_dict_set by blast
  have old: "\<forall>kd \<in> set (connection_settings st).
          map_of (snd kd) ''alias'' = None \<or> map_of (snd kd) ''alias'' = Some (fst kd)"
    using assms(1) by (simp add: registry_inv_def)
  have "set (connection_settings st') \<subseteq> insert (k, d) (set (connection_settings st))"
    unfolding assms(3) dict_set_def by (rule set_update_subset)
  then have b: "\<forall>kd \<in> set (connection_settings st').
          map_of (snd kd) ''alias'' = None \<or> map_of (snd kd) ''alias'' = Some (fst kd)"
    using old assms(2) by auto
  show ?thesis
    unfolding registry_inv_def using a b by simp
qed

lemma create_each_inv:
  "create_each env conn_settings conns st = (r, st') \<Longrightarrow> registry_inv st \<Longrightarrow> registry_inv st'"
proof (induction conn_settings arbitrary: conns st)
  case Nil
  then show ?case by simp
next
  case (Cons conn_setting rest)
  show ?case
  proof (cases "\<exists>d a. conn_setting = PDict d \<and> map_of d ''alias'' = Some a \<and> hashable a")
    case False
    then have "st' = st"
      using Cons.prems(1) by (cases conn_setting) (auto split: option.splits if_splits)
    then show ?thesis using Cons.prems(2) by simp
  next
    case True
    then obtain d a where cs: "conn_setting = PDict d" and a: "map_of d ''alias'' = Some a"
      and h: "hashable a"
      by blast
    let ?s = "st\<lparr>connection_settings := dict_set a d (connection_settings st)\<rparr>"
    obtain r1 st1 where g: "get_connection env a False ?s = (r1, st1)"
      by (cases "get_connection env a False ?s")
    have "registry_inv ?s"
      using Cons.prems(2) a by (intro registry_inv_register [of st d a ?s]) simp_all
    then have i1: "registry_inv st1"
      using g by (rule get_connection_inv [rotated])
    show ?thesis
    proof (cases r1)
      case (Inl e)
      then have "st' = st1" using Cons.prems(1) cs a h g by simp
      then show ?thesis using i1 by simp
    next
      case (Inr conn)
      then have "create_each env rest (dict_set a conn conns) st1 = (r, st')"
        using Cons.prems(1) cs a h g by simp
      then show ?thesis using i1 by (rule Cons.IH)
    qed
  qed
qed

lemma registry_inv_app [simp]: "registry_inv (st\<lparr>app_instance := a\<rparr>) = registry_inv st"
  by (simp add: registry_inv_def)

lemma create_connection_inv:
  assumes "create_connection env config app st = (r, st')" and "registry_inv st"
  shows "registry_inv st'"
proof -
  let ?a = "case app of Some c \<Rightarrow> App_object c | None \<Rightarrow> App_value config"
  let ?s = "st\<lparr>app_instance := ?a\<rparr>"
  have inv_s: "registry_inv ?s"
    using assms(2) by simp
  show ?thesis
  proof (cases "\<exists>cfg. config = PDict cfg")
    case False
    then have "st' = ?s"
      using assms(1) by (cases config) (auto simp: create_connection_def)
    then show ?thesis using inv_s by simp
  next
    case True
    then obtain cfg where cfg: "config = PDict cfg" by blast
    show ?thesis
    proof (cases "fetch_connection_settings cfg False")
      case (PList conn_settings)
      obtain r1 st1 where e: "create_each env conn_settings [] ?s = (r1, st1)"
        by (cases "create_each env conn_settings [] ?s")
      have i1: "registry_inv st1"
        using e inv_s by (rule create_each_inv)
      have "st' = st1"
        using assms(1) cfg PList e by (cases r1) (auto simp: create_connection_def)
      then show ?thesis using i1 by simp
    next
      case (PDict conn_settings)
      let ?k = "dict_get conn_settings ''alias'' (PStr DEFAULT_CONNECTION_NAME)"
      show ?thesis
      proof (cases "hashable ?k")
        case False
        then have "st' = ?s"
          using assms(1) cfg PDict by (auto simp: create_connection_def)
        then show ?thesis using inv_s by simp
      next
        case True
        let ?s2 = "st\<lparr>app_instance := ?a,
                       connection_settings := dict_set ?k conn_settings (connection_settings st)\<rparr>"
        obtain r1 st1 where g: "get_connection env ?k False ?s2 = (r1, st1)"
          by (cases "get_connection env ?k False ?s2")
        have "map_of conn_settings ''alias'' = None \<or> map_of conn_settings ''alias'' = Some ?k"
          by (simp add: dict_get_def split: option.splits)
        then have "registry_inv ?s2"
          using assms(2) by (intro registry_inv_register [of st conn_settings ?k ?s2]) simp_all
        then have i1: "registry_inv st1"
          using g by (rule get_connection_inv [rotated])
        have "st' = st1"
          using assms(1) cfg PDict True g by (cases r1) (auto simp: create_connection_def)
        then show ?thesis using i1 by simp
      qed
    qed (use assms(1) cfg inv_s in \<open>auto simp: create_connection_def\<close>)
  qed
qed

lemma registry_inv_initial: "registry_inv initial_state"
  by (simp add: registry_inv_def initial_state_def)

lemma reachable_registry_inv: "reachable st \<Longrightarrow> registry_inv st"
proof (induction rule: reachable.induct)
  case initial
  show ?case by (rule registry_inv_initial)
next
  case (configured st a)
  then show ?case by simp
next
  case (created st env config app r st')
  then show ?case using create_connection_inv by blast
next
  case (got st env k reconnect r' st')
  then show ?case using get_connection_inv by blast
next
  case (disconnected st env k preserved r'' st')
  then show ?case using disconnect_inv by blast
qed

subsection \<open>Claims about connections\<close>

lemma get_connection_body_registered:
  assumes "hashable alias" and "map_of (connections st) alias = None"
    and "map_of (connection_settings st) alias = Some d"
    and "map_of d ''host'' = Some conn_host" and "map_of d ''name'' = Some db_name"
    and "app_instance st = App_object cfg"
    and "dict_get cfg ''TESTING'' (PBool False) = is_test"
    and "dict_get cfg ''TEMP_DB'' (PBool False) = temp_db"
    and "dict_get cfg ''PRESERVE_TEMP_DB'' (PBool False) = preserved"
  shows "get_connection_body env alias st =
     (case validate_settings is_test temp_db preserved conn_host of
        Inl e \<Rightarrow> (Inl e, st)
      | Inr u \<Rightarrow>
          establish env alias is_test temp_db preserved conn_host db_name
            (dict_pop ''name'' d) st)"
proof -
  have g: "get_app_config env ''TESTING'' st = (Inr is_test, st)"
    "get_app_config env ''TEMP_DB'' st = (Inr temp_db, st)"
    "get_app_config env ''PRESERVE_TEMP_DB'' st = (Inr preserved, st)"
    using assms(6-9) by (simp_all add: get_app_config_def)
  have d: "dict_get (connection_settings st) alias [] = d"
    using assms(3) by (simp add: dict_get_def)
  show ?thesis
  proof (cases "validate_settings is_test temp_db preserved conn_host")
    case (Inl e)
    then show ?thesis
      using assms(1-5) by (simp add: get_connection_body_def dict_in_def d bind_def g)
  next
    case (Inr u)
    then show ?thesis
      using assms(1-5) by (simp add: get_connection_body_def dict_in_def d bind_def g)
  qed
qed

lemma validate_settings_bools:
  "\<not> startswith host ''mongomock://'' \<Longrightarrow>
   validate_settings (PBool is_test) (PBool temp_db) (PBool preserved) (PStr host) =
     (if (\<not> is_test \<and> temp_db) \<or> preserved
      then Inl (InvalidSettingsError test_only_msg) else Inr ())"
  by (simp add: validate_settings_def py_startswith_def)

lemma localhost_not_mock: "\<not> startswith ''localhost'' ''mongomock://''"
  by (simp add: startswith_def)

text \<open>
  Claim C1, evaluated where the code departs from it. With \<^verbatim>\<open>TESTING\<close> and
  \<^verbatim>\<open>PRESERVE_TEMP_DB\<close> both \<^verbatim>\<open>True\<close>, a registered alias and the host \<^verbatim>\<open>localhost\<close>,
  validation raises \<^verbatim>\<open>InvalidSettingsError\<close>, and so does \<^verbatim>\<open>get_connection\<close>, before any
  external call and whatever \<^verbatim>\<open>TEMP_DB\<close> is.
\<close>

theorem preserve_flag_rejected_in_test_mode:
  "validate_settings (PBool True) (PBool temp_db) (PBool True) (PStr ''localhost'') =
     Inl (InvalidSettingsError test_only_msg) \<and>
   get_connection env (PStr ''a'') False
     (example_state [(PStr ''a'', example_descriptor ''a'' ''localhost'' ''x'')] []
        [(''TESTING'', PBool True), (''PRESERVE_TEMP_DB'', PBool True)]) =
     (Inl (InvalidSettingsError test_only_msg),
      example_state [(PStr ''a'', example_descriptor ''a'' ''localhost'' ''x'')] []
        [(''TESTING'', PBool True), (''PRESERVE_TEMP_DB'', PBool True)])"
proof -
  let ?st = "example_state [(PStr ''a'', example_descriptor ''a'' ''localhost'' ''x'')] []
        [(''TESTING'', PBool True), (''PRESERVE_TEMP_DB'', PBool True)]"
  have v: "validate_settings (PBool True) (PBool t) (PBool True) (PStr ''localhost'') =
     Inl (InvalidSettingsError test_only_msg)" for t
    using validate_settings_bools [OF localhost_not_mock, of True t True] by simp
  have "get_connection_body env (PStr ''a'') ?st =
     (case validate_settings (PBool True) (PBool False) (PBool True) (PStr ''localhost'') of
        Inl e \<Rightarrow> (Inl e, ?st)
      | Inr u \<Rightarrow>
          establish env (PStr ''a'') (PBool True) (PBool False) (PBool True) (PStr ''localhost'')
            (PStr ''x'') (dict_pop ''name'' (example_descriptor ''a'' ''localhost'' ''x'')) ?st)"
    using get_connection_body_registered [of "PStr ''a''" ?st
        "example_descriptor ''a'' ''localhost'' ''x''" "PStr ''localhost''" "PStr ''x''"
        "[(''TESTING'', PBool True), (''PRESERVE_TEMP_DB'', PBool True)]"
        "PBool True" "PBool False" "PBool True" env]
    by (simp add: example_state_def example_descriptor_def dict_get_def)
  then have "get_connection_body env (PStr ''a'') ?st = (Inl (InvalidSettingsError test_only_msg), ?st)"
    by (simp only: v sum.case)
  then show ?thesis
    using v by (simp add: get_connection_def)
qed

text \<open>
  Claim C6, evaluated where the code departs from it. Outside test mode, an exception
  raised by \<^verbatim>\<open>mongoengine.connect\<close> reaches the caller of \<^verbatim>\<open>get_connection\<close> as it was
  raised: the call stands before the \<^verbatim>\<open>try\<close> block, not inside it.
\<close>

theorem connect_failure_not_wrapped:
  "get_connection (env\<lparr>mongoengine_connect := \<lambda>tr db_name conn_settings. Inl e\<rparr>) (PStr ''a'') False
     (example_state [(PStr ''a'', example_descriptor ''a'' ''localhost'' ''x'')] [] []) =
     (Inl (Raised e),
      log (Ev_connect (PStr ''x'') (dict_pop ''name'' (example_descriptor ''a'' ''localhost'' ''x'')))
        (example_state [(PStr ''a'', example_descriptor ''a'' ''localhost'' ''x'')] [] []))"
proof -
  let ?st = "example_state [(PStr ''a'', example_descriptor ''a'' ''localhost'' ''x'')] [] []"
  let ?env = "env\<lparr>mongoengine_connect := \<lambda>tr db_name conn_settings. Inl e\<rparr>"
  have v: "validate_settings (PBool False) (PBool False) (PBool False) (PStr ''localhost'') = Inr ()"
    using validate_settings_bools [OF localhost_not_mock, of False False False] by simp
  have "get_connection_body ?env (PStr ''a'') ?st =
     (case validate_settings (PBool False) (PBool False) (PBool False) (PStr ''localhost'') of
        Inl e \<Rightarrow> (Inl e, ?st)
      | Inr u \<Rightarrow>
          establish ?env (PStr ''a'') (PBool False) (PBool False) (PBool False) (PStr ''localhost'')
            (PStr ''x'') (dict_pop ''name'' (example_descriptor ''a'' ''localhost'' ''x'')) ?st)"
    using get_connection_body_registered [of "PStr ''a''" ?st
        "example_descriptor ''a'' ''localhost'' ''x''" "PStr ''localhost''" "PStr ''x''"
        "[]" "PBool False" "PBool False" "PBool False" ?env]
    by (simp add: example_state_def example_descriptor_def dict_get_def)
  then have "get_connection_body ?env (PStr ''a'') ?st =
          establish ?env (PStr ''a'') (PBool False) (PBool False) (PBool False) (PStr ''localhost'')
            (PStr ''x'') (dict_pop ''name'' (example_descriptor ''a'' ''localhost'' ''x'')) ?st"
    by (simp only: v sum.case)
  then show ?thesis
    by (simp add: get_connection_def establish_def connect_default_def)
qed

lemma not_defined_msg_default:
  "not_defined_msg env (PStr DEFAULT_CONNECTION_NAME) = ''You have not defined a default connection''"
  by (simp add: not_defined_msg_def)

lemma not_defined_msg_named:
  "alias \<noteq> PStr DEFAULT_CONNECTION_NAME \<Longrightarrow>
   not_defined_msg env alias =
     ''Connection with alias \"'' @ py_str env alias @ ''\" has not been defined''"
  by (simp add: not_defined_msg_def)

lemma not_defined_msg_not_wrap: "not_defined_msg env alias \<noteq> cannot_connect_msg env alias' e"
  by (simp add: not_defined_msg_def cannot_connect_msg_def)

text \<open>
  Claim C3. In every reachable state, \<^verbatim>\<open>get_connection\<close> of a (hashable) alias without
  a descriptor raises the module's \<^verbatim>\<open>ConnectionError\<close> with the not-defined message and
  changes nothing. The message for the default alias is the fixed sentence about the default
  connection; for any other alias it quotes the alias and differs from that sentence. Neither
  is the message of a wrapped connection failure.
\<close>

theorem get_connection_undefined_alias:
  assumes "reachable st" and "hashable alias" and "\<not> dict_in alias (connection_settings st)"
  shows "get_connection env alias False st =
           (Inl (ConnectionError (not_defined_msg env alias)), st) \<and>
         not_defined_msg env (PStr DEFAULT_CONNECTION_NAME) =
           ''You have not defined a default connection'' \<and>
         (if alias = PStr DEFAULT_CONNECTION_NAME then True
          else not_defined_msg env alias =
                 ''Connection with alias \"'' @ py_str env alias @ ''\" has not been defined'' \<and>
               not_defined_msg env alias \<noteq> not_defined_msg env (PStr DEFAULT_CONNECTION_NAME)) \<and>
         not_defined_msg env alias \<noteq> cannot_connect_msg env alias' e"
proof -
  have "registry_inv st"
    using assms(1) by (rule reachable_registry_inv)
  then have "fst ` set (connections st) \<subseteq> fst ` set (connection_settings st)"
    by (simp add: registry_inv_def)
  then have "\<not> dict_in alias (connections st)"
    using assms(3) unfolding dict_in_keys by blast
  then have "get_connection env alias False st =
           (Inl (ConnectionError (not_defined_msg env alias)), st)"
    using assms(2,3) by (simp add: get_connection_def get_connection_body_def)
  moreover have "alias \<noteq> PStr DEFAULT_CONNECTION_NAME \<Longrightarrow>
      not_defined_msg env alias \<noteq> not_defined_msg env (PStr DEFAULT_CONNECTION_NAME)"
    by (simp add: not_defined_msg_def)
  ultimately show ?thesis
    using not_defined_msg_not_wrap [of env "alias" "alias'" e]
    by (simp add: not_defined_msg_default not_defined_msg_named)
qed

theorem get_connection_undefined_alias_witness:
  "reachable initial_state \<and> hashable (PStr ''nope'') \<and>
   \<not> dict_in (PStr ''nope'') (connection_settings initial_state) \<and>
   get_connection demo_env (PStr ''nope'') False initial_state =
     (Inl (ConnectionError ''Connection with alias \"nope\" has not been defined''),
      initial_state) \<and>
   get_connection demo_env (PStr DEFAULT_CONNECTION_NAME) False initial_state =
     (Inl (ConnectionError ''You have not defined a default connection''), initial_state)"
proof -
  have r: "reachable initial_state"
    by (rule reachable.initial)
  have n: "\<not> dict_in k (connection_settings initial_state)" for k
    by (simp add: dict_in_def initial_state_def)
  have m: "not_defined_msg demo_env (PStr ''nope'') =
             ''Connection with alias \"nope\" has not been defined''"
    by (simp add: not_defined_msg_def py_str_def DEFAULT_CONNECTION_NAME_def)
  show ?thesis
    using get_connection_undefined_alias [OF r _ n, of "PStr ''nope''" demo_env]
      get_connection_undefined_alias [OF r _ n, of "PStr DEFAULT_CONNECTION_NAME" demo_env]
      r n [of "PStr ''nope''"]
    by (simp add: m not_defined_msg_default)
qed

text \<open>
  Claim C5. In every reachable state each alias with a client has a descriptor.
\<close>

theorem clients_have_descriptors:
  assumes "reachable st"
  shows "fst ` set (connections st) \<subseteq> fst ` set (connection_settings st)"
  using reachable_registry_inv [OF assms] by (simp add: registry_inv_def)

lemma demo_created:
  "create_connection demo_env (PDict [(''MONGODB_DB'', PStr ''x'')]) None initial_state =
     (Inr (Created_one (Ret_database (Database 1 (Some (Client 7))))),
      \<lparr>connection_settings =
         [(PStr DEFAULT_CONNECTION_NAME,
           [(''name'', PStr ''x''), (''alias'', PStr DEFAULT_CONNECTION_NAME),
            (''host'', PStr ''localhost''), (''port'', PInt 27017), (''username'', PNone),
            (''read_preference'', PReadPreference PRIMARY)])],
       connections = [(PStr DEFAULT_CONNECTION_NAME, Client 0)],
       tmpdir = PNone, process = None,
       app_instance = App_value (PDict [(''MONGODB_DB'', PStr ''x'')]),
       trace =
         [Ev_connect (PStr ''x'')
            [(''alias'', PStr DEFAULT_CONNECTION_NAME), (''host'', PStr ''localhost''),
             (''port'', PInt 27017), (''username'', PNone),
             (''read_preference'', PReadPreference PRIMARY)],
          Ev_get_db (PStr DEFAULT_CONNECTION_NAME)]\<rparr>)"
  by code_simp

lemma demo_failed:
  "create_connection (demo_env\<lparr>mongoengine_connect := \<lambda>tr db_name conn_settings.
        Inl (OtherError ''ServerSelectionTimeoutError'' ''timed out'')\<rparr>)
      (PDict [(''MONGODB_DB'', PStr ''x'')]) None initial_state =
     (Inl (Raised (OtherError ''ServerSelectionTimeoutError'' ''timed out'')),
      \<lparr>connection_settings =
         [(PStr DEFAULT_CONNECTION_NAME,
           [(''name'', PStr ''x''), (''alias'', PStr DEFAULT_CONNECTION_NAME),
            (''host'', PStr ''localhost''), (''port'', PInt 27017), (''username'', PNone),
            (''read_preference'', PReadPreference PRIMARY)])],
       connections = [],
       tmpdir = PNone, process = None,
       app_instance = App_value (PDict [(''MONGODB_DB'', PStr ''x'')]),
       trace =
         [Ev_connect (PStr ''x'')
            [(''alias'', PStr DEFAULT_CONNECTION_NAME), (''host'', PStr ''localhost''),
             (''port'', PInt 27017), (''username'', PNone),
             (''read_preference'', PReadPreference PRIMARY)]]\<rparr>)"
  by code_simp

text \<open>
  Two reachable states: one with a client and its descriptor, and one, left behind by a
  failed connect, with a descriptor and no client.
\<close>

theorem clients_have_descriptors_witness:
  "reachable (snd (create_connection demo_env (PDict [(''MONGODB_DB'', PStr ''x'')]) None
                     initial_state)) \<and>
   fst ` set (connections (snd (create_connection demo_env (PDict [(''MONGODB_DB'', PStr ''x'')])
                                  None initial_state))) = {PStr DEFAULT_CONNECTION_NAME} \<and>
   fst ` set (connection_settings (snd (create_connection demo_env
                (PDict [(''MONGODB_DB'', PStr ''x'')]) None initial_state))) =
     {PStr DEFAULT_CONNECTION_NAME} \<and>
   reachable (snd (create_connection (demo_env\<lparr>mongoengine_connect := \<lambda>tr db_name conn_settings.
        Inl (OtherError ''ServerSelectionTimeoutError'' ''timed out'')\<rparr>)
      (PDict [(''MONGODB_DB'', PStr ''x'')]) None initial_state)) \<and>
   fst ` set (connections (snd (create_connection (demo_env\<lparr>mongoengine_connect :=
        \<lambda>tr db_name conn_settings. Inl (OtherError ''ServerSelectionTimeoutError'' ''timed out'')\<rparr>)
      (PDict [(''MONGODB_DB'', PStr ''x'')]) None initial_state))) = {} \<and>
   fst ` set (connection_settings (snd (create_connection (demo_env\<lparr>mongoengine_connect :=
        \<lambda>tr db_name conn_settings. Inl (OtherError ''ServerSelectionTimeoutError'' ''timed out'')\<rparr>)
      (PDict [(''MONGODB_DB'', PStr ''x'')]) None initial_state))) = {PStr DEFAULT_CONNECTION_NAME}"
proof -
  have r1: "reachable (snd (create_connection demo_env (PDict [(''MONGODB_DB'', PStr ''x'')]) None
                     initial_state))"
    using reachable.created [OF reachable.initial demo_created] by (simp add: demo_created)
  have r2: "reachable (snd (create_connection (demo_env\<lparr>mongoengine_connect :=
        \<lambda>tr db_name conn_settings. Inl (OtherError ''ServerSelectionTimeoutError'' ''timed out'')\<rparr>)
      (PDict [(''MONGODB_DB'', PStr ''x'')]) None initial_state))"
    using reachable.created [OF reachable.initial demo_failed] by (simp add: demo_failed)
  show ?thesis
    using clients_have_descriptors [OF r1] r1 r2
    by (simp add: demo_created demo_failed)
qed

lemma attempts_Suc: "attempts port (Suc k) = [Ev_sleep 100, Ev_mongo_client port] @ attempts port k"
  by (simp add: attempts_def)

lemma attempts_Suc_end: "attempts port (Suc k) = attempts port k @ [Ev_sleep 100, Ev_mongo_client port]"
  unfolding attempts_def by (induction k) simp_all

lemma logged_twice:
  "log (Ev_mongo_client port) (log (Ev_sleep 100) st) =
     st\<lparr>trace := trace st @ [Ev_sleep 100, Ev_mongo_client port]\<rparr>"
  by (simp add: log_def)

lemma wait_exhausted:
  "(\<forall>k<n. \<exists>m. pymongo_MongoClient env (trace st @ attempts port k @ [Ev_sleep 100]) port =
             Inl (ConnectionFailure m)) \<Longrightarrow>
   wait_for_instance env port n st =
     (Inl (MongoengineConnectionError test_instance_msg),
      st\<lparr>trace := trace st @ attempts port n\<rparr>)"
proof (induction n arbitrary: st)
  case 0
  then show ?case by (simp add: attempts_def)
next
  case (Suc n)
  let ?s = "log (Ev_mongo_client port) (log (Ev_sleep 100) st)"
  obtain m where first: "pymongo_MongoClient env (trace st @ [Ev_sleep 100]) port =
      Inl (ConnectionFailure m)"
    using Suc.prems [rule_format, of 0] by (auto simp: attempts_def)
  have rest: "\<forall>k<n. \<exists>m. pymongo_MongoClient env (trace ?s @ attempts port k @ [Ev_sleep 100]) port =
             Inl (ConnectionFailure m)"
  proof (intro allI impI)
    fix k assume "k < n"
    then have "Suc k < Suc n" by simp
    then show "\<exists>m. pymongo_MongoClient env (trace ?s @ attempts port k @ [Ev_sleep 100]) port =
             Inl (ConnectionFailure m)"
      using Suc.prems [rule_format, of "Suc k"] by (simp add: attempts_Suc)
  qed
  have "wait_for_instance env port n ?s =
     (Inl (MongoengineConnectionError test_instance_msg), ?s\<lparr>trace := trace ?s @ attempts port n\<rparr>)"
    using rest by (rule Suc.IH)
  then show ?case
    using first by (simp add: attempts_Suc logged_twice)
qed

lemma wait_success:
  "k < n \<Longrightarrow>
   (\<forall>j<k. \<exists>m. pymongo_MongoClient env (trace st @ attempts port j @ [Ev_sleep 100]) port =
             Inl (ConnectionFailure m)) \<Longrightarrow>
   pymongo_MongoClient env (trace st @ attempts port k @ [Ev_sleep 100]) port = Inr c \<Longrightarrow>
   wait_for_instance env port n st = (Inr c, st\<lparr>trace := trace st @ attempts port (Suc k)\<rparr>)"
proof (induction n arbitrary: st k)
  case 0
  then show ?case by simp
next
  case (Suc n)
  let ?s = "log (Ev_mongo_client port) (log (Ev_sleep 100) st)"
  show ?case
  proof (cases k)
    case 0
    then show ?thesis
      using Suc.prems(3) by (simp add: attempts_def logged_twice)
  next
    case (Suc k')
    obtain m where first: "pymongo_MongoClient env (trace st @ [Ev_sleep 100]) port =
        Inl (ConnectionFailure m)"
      using Suc.prems(2) [rule_format, of 0] Suc by (auto simp: attempts_def)
    have rest: "\<forall>j<k'. \<exists>m. pymongo_MongoClient env (trace ?s @ attempts port j @ [Ev_sleep 100]) port =
             Inl (ConnectionFailure m)"
    proof (intro allI impI)
      fix j assume "j < k'"
      then have "Suc j < k" using Suc by simp
      then show "\<exists>m. pymongo_MongoClient env (trace ?s @ attempts port j @ [Ev_sleep 100]) port =
             Inl (ConnectionFailure m)"
        using Suc.prems(2) [rule_format, of "Suc j"] by (simp add: attempts_Suc)
    qed
    have last: "pymongo_MongoClient env (trace ?s @ attempts port k' @ [Ev_sleep 100]) port = Inr c"
      using Suc.prems(3) Suc by (simp add: attempts_Suc)
    have "k' < n" using Suc.prems(1) Suc by simp
    then have "wait_for_instance env port n ?s =
        (Inr c, ?s\<lparr>trace := trace ?s @ attempts port (Suc k')\<rparr>)"
      using rest last by (rule Suc.IH)
    then show ?thesis
      using first Suc by (simp add: attempts_Suc logged_twice)
  qed
qed

lemma wait_trace:
  "\<exists>k\<le>n. trace (snd (wait_for_instance env port n st)) = trace st @ attempts port k \<and>
          (0 < n \<longrightarrow> 0 < k)"
proof (induction n arbitrary: st)
  case 0
  then show ?case by (simp add: attempts_def)
next
  case (Suc n)
  let ?s = "log (Ev_mongo_client port) (log (Ev_sleep 100) st)"
  have one: "trace ?s = trace st @ attempts port (Suc 0)"
    by (simp add: attempts_def)
  show ?case
  proof (cases "pymongo_MongoClient env (trace (log (Ev_sleep 100) st)) port")
    case (Inr c)
    then have "trace (snd (wait_for_instance env port (Suc n) st)) = trace st @ attempts port (Suc 0)"
      using one by simp
    then show ?thesis by (intro exI [of _ "Suc 0"]) simp
  next
    case (Inl e)
    show ?thesis
    proof (cases e)
      case (ConnectionFailure m)
      obtain k where k: "k \<le> n"
        "trace (snd (wait_for_instance env port n ?s)) = trace ?s @ attempts port k"
        using Suc.IH [of ?s] by blast
      have "trace (snd (wait_for_instance env port (Suc n) st)) = trace st @ attempts port (Suc k)"
        using Inl ConnectionFailure k(2) by (simp add: attempts_Suc)
      then show ?thesis using k(1) by (intro exI [of _ "Suc k"]) simp
    next
      case (UnboundLocalError x)
      then have "trace (snd (wait_for_instance env port (Suc n) st)) = trace st @ attempts port (Suc 0)"
        using one Inl by simp
      then show ?thesis by (intro exI [of _ "Suc 0"]) simp
    next
      case (OtherError x y)
      then have "trace (snd (wait_for_instance env port (Suc n) st)) = trace st @ attempts port (Suc 0)"
        using one Inl by simp
      then show ?thesis by (intro exI [of _ "Suc 0"]) simp
    qed
  qed
qed

lemma register_test_connection_spawned:
  assumes "prepare_test_instance env port st = (Inr (Some port'), st1)"
    and "hashable db_alias" and "map_of (connections st1) db_alias = None"
    and "subprocess_Popen env (trace st1) port' (tmpdir st1) = Inr p"
    and "st2 = log (Ev_atexit_register preserved)
                 ((log (Ev_popen port' (tmpdir st1)) st1)\<lparr>process := Some p\<rparr>)"
  shows "register_test_connection env port db_alias preserved st =
     (case wait_for_instance env port' 3 st2 of
        (Inl e, st3) \<Rightarrow> (Inl e, st3)
      | (Inr conn, st3) \<Rightarrow>
          (Inr (Ret_client conn), st3\<lparr>connections := dict_set db_alias conn (connections st3)\<rparr>))"
  using assms(1-4) unfolding assms(5) by (simp add: register_test_connection_def)

text \<open>
  Claim C7. Once the server process is spawned, provisioning makes between one and three
  attempts to open a client, each preceded by a sleep of 100 ms, and nothing else, before it
  returns. If all three attempts raise \<^verbatim>\<open>ConnectionFailure\<close>, it raises a
  \<^verbatim>\<open>ConnectionError\<close> whose message is \<^verbatim>\<open>Cannot connect to the mongodb test instance\<close>.
  The class is \<^verbatim>\<open>mongoengine.ConnectionError\<close>, the library's (\<open>MongoengineConnectionError\<close>),
  and not the class of that name that this module defines and raises elsewhere. If an
  attempt succeeds after failed ones, its client is stored under the alias and returned.
\<close>

theorem readiness_wait:
  assumes "prepare_test_instance env port st = (Inr (Some port'), st1)"
    and "hashable db_alias" and "map_of (connections st1) db_alias = None"
    and "subprocess_Popen env (trace st1) port' (tmpdir st1) = Inr p"
    and "st2 = log (Ev_atexit_register preserved)
                 ((log (Ev_popen port' (tmpdir st1)) st1)\<lparr>process := Some p\<rparr>)"
  shows "(\<exists>k. 1 \<le> k \<and> k \<le> 3 \<and>
            trace (snd (register_test_connection env port db_alias preserved st)) =
              trace st2 @ attempts port' k) \<and>
         ((\<forall>k<3. \<exists>m. pymongo_MongoClient env (trace st2 @ attempts port' k @ [Ev_sleep 100]) port' =
                    Inl (ConnectionFailure m)) \<longrightarrow>
          register_test_connection env port db_alias preserved st =
            (Inl (MongoengineConnectionError ''Cannot connect to the mongodb test instance''),
             st2\<lparr>trace := trace st2 @ attempts port' 3\<rparr>)) \<and>
         (\<forall>m. MongoengineConnectionError ''Cannot connect to the mongodb test instance'' \<noteq>
                ConnectionError m) \<and>
         (\<forall>k c. k < 3 \<and>
            (\<forall>j<k. \<exists>m. pymongo_MongoClient env (trace st2 @ attempts port' j @ [Ev_sleep 100]) port' =
                      Inl (ConnectionFailure m)) \<and>
            pymongo_MongoClient env (trace st2 @ attempts port' k @ [Ev_sleep 100]) port' = Inr c \<longrightarrow>
            register_test_connection env port db_alias preserved st =
              (Inr (Ret_client c),
               st2\<lparr>trace := trace st2 @ attempts port' (Suc k),
                    connections := dict_set db_alias c (connections st2)\<rparr>))"
proof (intro conjI allI impI)
  note reg = register_test_connection_spawned [OF assms]
  obtain r3 st3 where w: "wait_for_instance env port' 3 st2 = (r3, st3)"
    by (cases "wait_for_instance env port' 3 st2")
  obtain k where k: "k \<le> 3" "trace (snd (wait_for_instance env port' 3 st2)) = trace st2 @ attempts port' k"
    "0 < k"
    using wait_trace [of 3 env port' st2] by auto
  have "trace (snd (register_test_connection env port db_alias preserved st)) = trace st3"
    unfolding reg w by (cases r3) simp_all
  then have "trace (snd (register_test_connection env port db_alias preserved st)) =
      trace st2 @ attempts port' k"
    using k(2) w by simp
  then show "\<exists>k. 1 \<le> k \<and> k \<le> 3 \<and>
            trace (snd (register_test_connection env port db_alias preserved st)) =
              trace st2 @ attempts port' k"
    using k(1,3) by (intro exI [of _ k]) simp
next
  assume "\<forall>k<3. \<exists>m. pymongo_MongoClient env (trace st2 @ attempts port' k @ [Ev_sleep 100]) port' =
                    Inl (ConnectionFailure m)"
  then have "wait_for_instance env port' 3 st2 =
     (Inl (MongoengineConnectionError test_instance_msg), st2\<lparr>trace := trace st2 @ attempts port' 3\<rparr>)"
    by (rule wait_exhausted)
  then show "register_test_connection env port db_alias preserved st =
            (Inl (MongoengineConnectionError ''Cannot connect to the mongodb test instance''),
             st2\<lparr>trace := trace st2 @ attempts port' 3\<rparr>)"
    unfolding register_test_connection_spawned [OF assms] by (simp add: test_instance_msg_def)
next
  fix m
  show "MongoengineConnectionError ''Cannot connect to the mongodb test instance'' \<noteq> ConnectionError m"
    by simp
next
  fix k c
  assume a: "k < 3 \<and>
            (\<forall>j<k. \<exists>m. pymongo_MongoClient env (trace st2 @ attempts port' j @ [Ev_sleep 100]) port' =
                      Inl (ConnectionFailure m)) \<and>
            pymongo_MongoClient env (trace st2 @ attempts port' k @ [Ev_sleep 100]) port' = Inr c"
  then have "wait_for_instance env port' 3 st2 =
      (Inr c, st2\<lparr>trace := trace st2 @ attempts port' (Suc k)\<rparr>)"
    by (intro wait_success) simp_all
  then show "register_test_connection env port db_alias preserved st =
              (Inr (Ret_client c),
               st2\<lparr>trace := trace st2 @ attempts port' (Suc k),
                    connections := dict_set db_alias c (connections st2)\<rparr>)"
    unfolding register_test_connection_spawned [OF assms] by simp
qed

lemma demo_prepared:
  "prepare_test_instance demo_env (PInt 27017) initial_state =
     (Inr (Some (PInt 27111)), prepared_state)"
  "prepare_test_instance refusing_env (PInt 27017) initial_state =
     (Inr (Some (PInt 27111)), prepared_state)"
  by code_simp+

theorem readiness_wait_witness:
  "register_test_connection demo_env (PInt 27017) (PStr ''a'') (PBool False) initial_state =
     (Inr (Ret_client (Client 7)),
      \<lparr>connection_settings = [], connections = [(PStr ''a'', Client 7)],
       tmpdir = PStr ''/tmp/tmpdb'', process = Some (Process 2), app_instance = Current_app,
       trace = [Ev_exec ''mongod --version'', Ev_mkdtemp,
                Ev_popen (PInt 27111) (PStr ''/tmp/tmpdb''), Ev_atexit_register (PBool False),
                Ev_sleep 100, Ev_mongo_client (PInt 27111),
                Ev_sleep 100, Ev_mongo_client (PInt 27111)]\<rparr>) \<and>
   register_test_connection refusing_env (PInt 27017) (PStr ''a'') (PBool False) initial_state =
     (Inl (MongoengineConnectionError ''Cannot connect to the mongodb test instance''),
      \<lparr>connection_settings = [], connections = [],
       tmpdir = PStr ''/tmp/tmpdb'', process = Some (Process 2), app_instance = Current_app,
       trace = [Ev_exec ''mongod --version'', Ev_mkdtemp,
                Ev_popen (PInt 27111) (PStr ''/tmp/tmpdb''), Ev_atexit_register (PBool False),
                Ev_sleep 100, Ev_mongo_client (PInt 27111),
                Ev_sleep 100, Ev_mongo_client (PInt 27111),
                Ev_sleep 100, Ev_mongo_client (PInt 27111)]\<rparr>)"
proof -
  let ?st2 = "log (Ev_atexit_register (PBool False))
                ((log (Ev_popen (PInt 27111) (tmpdir prepared_state)) prepared_state)
                   \<lparr>process := Some (Process 2)\<rparr>)"
  have h: "hashable (PStr ''a'')"
    by simp
  have none: "map_of (connections prepared_state) (PStr ''a'') = None"
    by (simp add: prepared_state_def)
  have spawn1: "subprocess_Popen demo_env (trace prepared_state) (PInt 27111)
                  (tmpdir prepared_state) = Inr (Process 2)"
    by (simp add: demo_env_def prepared_state_def)
  have spawn2: "subprocess_Popen refusing_env (trace prepared_state) (PInt 27111)
                  (tmpdir prepared_state) = Inr (Process 2)"
    by (simp add: refusing_env_def demo_env_def prepared_state_def)
  have first: "\<forall>j<1. \<exists>m. pymongo_MongoClient demo_env
        (trace ?st2 @ attempts (PInt 27111) j @ [Ev_sleep 100]) (PInt 27111) =
      Inl (ConnectionFailure m)"
    by (simp add: prepared_state_def attempts_def demo_env_def)
  have second: "pymongo_MongoClient demo_env
        (trace ?st2 @ attempts (PInt 27111) 1 @ [Ev_sleep 100]) (PInt 27111) = Inr (Client 7)"
    by (simp add: prepared_state_def attempts_def demo_env_def)
  have never: "\<forall>k<3. \<exists>m. pymongo_MongoClient refusing_env
        (trace ?st2 @ attempts (PInt 27111) k @ [Ev_sleep 100]) (PInt 27111) =
      Inl (ConnectionFailure m)"
    by (simp add: refusing_env_def)
  have ok: "register_test_connection demo_env (PInt 27017) (PStr ''a'') (PBool False) initial_state =
      (Inr (Ret_client (Client 7)),
       ?st2\<lparr>trace := trace ?st2 @ attempts (PInt 27111) (Suc 1),
             connections := dict_set (PStr ''a'') (Client 7) (connections ?st2)\<rparr>)"
    using readiness_wait [OF demo_prepared(1) h none spawn1 refl, of "PBool False"] first second
    by simp
  have bad: "register_test_connection refusing_env (PInt 27017) (PStr ''a'') (PBool False)
        initial_state =
      (Inl (MongoengineConnectionError ''Cannot connect to the mongodb test instance''),
       ?st2\<lparr>trace := trace ?st2 @ attempts (PInt 27111) 3\<rparr>)"
    using readiness_wait [OF demo_prepared(2) h none spawn2 refl, of "PBool False"] never
    by simp
  show ?thesis
    unfolding ok bad
    by (simp add: attempts_def numeral_3_eq_3 prepared_state_def log_def dict_set_def)
qed

text \<open>
  Claim C2, evaluated where the code departs from it. Two aliases have the same host, port
  and credentials and different database names; \<^verbatim>\<open>a\<close> is connected first, then \<^verbatim>\<open>b\<close>. With
  a mock host the pass meets the open alias \<^verbatim>\<open>a\<close>, leaves the loop, and \<^verbatim>\<open>b\<close> gets no
  client at all. With an ordinary host \<^verbatim>\<open>b\<close> keeps the client that
  \<^verbatim>\<open>mongoengine.connect\<close> returned. In neither case does \<^verbatim>\<open>b\<close> get the client of
  \<^verbatim>\<open>a\<close>.
\<close>

theorem sharing_pass_reuses_nothing:
  "connections (snd (get_connection demo_env (PStr ''a'') False
      (example_state (two_aliases ''mongomock://localhost'') [] [(''TESTING'', PBool True)]))) =
     [(PStr ''a'', Client 1)] \<and>
   get_connection demo_env (PStr ''b'') False
     (snd (get_connection demo_env (PStr ''a'') False
        (example_state (two_aliases ''mongomock://localhost'') [] [(''TESTING'', PBool True)]))) =
     (Inr (Ret_database (Database 3 (Some (Client 7)))),
      \<lparr>connection_settings = two_aliases ''mongomock://localhost'',
       connections = [(PStr ''a'', Client 1)], tmpdir = PNone, process = None,
       app_instance = App_object [(''TESTING'', PBool True)],
       trace =
         [Ev_mock_client
            (dict_set ''host'' (PStr ''mongodb://localhost'')
               (dict_pop ''name'' (example_descriptor ''a'' ''mongomock://localhost'' ''db_a''))),
          Ev_mock_client
            (dict_set ''host'' (PStr ''mongodb://localhost'')
               (dict_pop ''name'' (example_descriptor ''a'' ''mongomock://localhost'' ''db_a''))),
          Ev_get_db (PStr ''a''), Ev_get_db (PStr ''b'')]\<rparr>) \<and>
   get_connection demo_env (PStr ''b'') False
     (snd (get_connection demo_env (PStr ''a'') False
        (example_state (two_aliases ''localhost'') [] []))) =
     (Inr (Ret_database (Database 3 (Some (Client 7)))),
      \<lparr>connection_settings = two_aliases ''localhost'',
       connections = [(PStr ''a'', Client 0), (PStr ''b'', Client 2)], tmpdir = PNone,
       process = None, app_instance = App_object [],
       trace =
         [Ev_connect (PStr ''db_a'')
            (dict_pop ''name'' (example_descriptor ''a'' ''localhost'' ''db_a'')),
          Ev_get_db (PStr ''a''),
          Ev_connect (PStr ''db_b'')
            (dict_pop ''name'' (example_descriptor ''b'' ''localhost'' ''db_b'')),
          Ev_get_db (PStr ''b'')]\<rparr>)"
  by code_simp

text \<open>
  Claim C4, evaluated where the code departs from it. On a forced reconnect with
  \<^verbatim>\<open>PRESERVE_TEMP_DB\<close> set, the teardown still removes the temporary directory and the
  socket file: the preserve argument is read from the registry of descriptors, not from the
  application. With the flag unset and an alias that happens to be called
  \<^verbatim>\<open>preserve_temp_db\<close>, the teardown keeps them.
\<close>

theorem reconnect_ignores_preserve_flag:
  "get_connection demo_env (PStr ''a'') True
     (provisioned_state [(PStr ''a'', example_descriptor ''a'' ''localhost'' ''x'')]
        [(''TESTING'', PBool True), (''TEMP_DB'', PBool True),
         (''PRESERVE_TEMP_DB'', PBool True)]) =
     (Inl (InvalidSettingsError test_only_msg),
      \<lparr>connection_settings = [(PStr ''a'', example_descriptor ''a'' ''localhost'' ''x'')],
       connections = [], tmpdir = PStr ''/tmp/tmpdb'', process = None,
       app_instance =
         App_object [(''TESTING'', PBool True), (''TEMP_DB'', PBool True),
                     (''PRESERVE_TEMP_DB'', PBool True)],
       trace =
         [Ev_get_db (PStr ''a''), Ev_close_client (Client 7),
          Ev_terminate (Process 2), Ev_wait (Process 2),
          Ev_rmtree (PStr ''/tmp/tmpdb''), Ev_remove ''/tmp/mongodb-27111.sock'']\<rparr>) \<and>
   get_connection demo_env (PStr ''a'') True
     (provisioned_state
        [(PStr ''a'', example_descriptor ''a'' ''localhost'' ''x''),
         (PStr ''preserve_temp_db'',
          example_descriptor ''preserve_temp_db'' ''localhost'' ''y'')]
        [(''TESTING'', PBool True), (''TEMP_DB'', PBool True)]) =
     (Inr (Ret_client (Client 9)),
      \<lparr>connection_settings =
         [(PStr ''a'', example_descriptor ''a'' ''localhost'' ''x''),
          (PStr ''preserve_temp_db'',
           example_descriptor ''preserve_temp_db'' ''localhost'' ''y'')],
       connections = [(PStr ''a'', Client 9)], tmpdir = PStr ''/tmp/tmpdb'',
       process = Some (Process 6),
       app_instance = App_object [(''TESTING'', PBool True), (''TEMP_DB'', PBool True)],
       trace =
         [Ev_get_db (PStr ''a''), Ev_close_client (Client 7),
          Ev_terminate (Process 2), Ev_wait (Process 2),
          Ev_exec ''mongod --version'', Ev_mkdtemp,
          Ev_popen (PInt 27111) (PStr ''/tmp/tmpdb''), Ev_atexit_register (PBool False),
          Ev_sleep 100, Ev_mongo_client (PInt 27111)]\<rparr>)"
  by code_simp

theorem preserve_flag_rejected_in_test_mode_witness:
  "validate_settings (PBool True) (PBool True) (PBool True) (PStr ''localhost'') =
     Inl (InvalidSettingsError test_only_msg) \<and>
   fst (get_connection demo_env (PStr ''a'') False
     (example_state [(PStr ''a'', example_descriptor ''a'' ''localhost'' ''x'')] []
        [(''TESTING'', PBool True), (''PRESERVE_TEMP_DB'', PBool True)])) =
     Inl (InvalidSettingsError test_only_msg)"
  using preserve_flag_rejected_in_test_mode [of True demo_env] by simp

theorem resolve_settings_prefixed_witness:
  "resolve_settings
     (PDict [(''MONGODB_HOST'', PStr ''h''), (''MONGODB_PORT'', PInt 1234),
             (''MONGODB_DB'', PStr ''x'')]) (Some ''MONGODB_'') True =
   PDict [(''host'', PStr ''h''), (''port'', PInt 1234), (''name'', PStr ''x''),
          (''alias'', PStr DEFAULT_CONNECTION_NAME), (''username'', PNone),
          (''read_preference'', PReadPreference PRIMARY)] \<and>
   fst ` set (resolve_items (Some ''MONGODB_'')
               [(''MONGODB_HOST'', PStr ''h''), (''DEBUG'', PBool True)]) = {''host''}"
proof -
  have "(\<lambda>k. lower (drop (length ''MONGODB_'') k)) `
          {k \<in> fst ` set [(''MONGODB_HOST'', PStr ''h''), (''DEBUG'', PBool True)].
             startswith k ''MONGODB_''} = {''host''}"
    by code_simp
  then show ?thesis
    using resolve_settings_prefixed
      [of True "''MONGODB_''" "[(''MONGODB_HOST'', PStr ''h''), (''DEBUG'', PBool True)]"]
    by simp
qed

end
